theory Spec2Isabelle
  imports Main
begin

section \<open>Python string operations used by the scraper\<close>

text \<open>
  Strings are lists of characters read as code points 0..255. The scraper uses
  \<^verbatim>\<open>str.strip()\<close>, \<^verbatim>\<open>str.replace(old, new)\<close>, \<^verbatim>\<open>re.findall(r'\d+', s)\<close> and
  \<^verbatim>\<open>int(s)\<close>; each is written out below as Python computes it.
\<close>

definition is_space :: "char \<Rightarrow> bool" where
  \<comment> \<open>the code points below 256 that \<^verbatim>\<open>str.strip()\<close> removes\<close>
  "is_space c = (c \<in> set [CHR 0x09, CHR 0x0A, CHR 0x0B, CHR 0x0C, CHR 0x0D,
     CHR 0x1C, CHR 0x1D, CHR 0x1E, CHR 0x1F, CHR 0x20, CHR 0x85, CHR 0xA0])"

definition strip :: "string \<Rightarrow> string" where
  "strip s = rev (dropWhile is_space (rev (dropWhile is_space s)))"

function replace :: "string \<Rightarrow> string \<Rightarrow> string \<Rightarrow> string" where
  \<comment> \<open>\<^verbatim>\<open>s.replace(old, new)\<close>: the occurrences of \<open>old\<close> found left to right, without overlap\<close>
  "replace old new [] = (if old = [] then new else [])"
| "replace old new (c # cs) =
     (if old = [] then new @ c # replace old new cs
      else if take (length old) (c # cs) = old
        then new @ replace old new (drop (length old) (c # cs))
      else c # replace old new cs)"
  by pat_completeness auto
termination
  by (relation "measure (\<lambda>(old, new, s). length s)") (auto simp: neq_Nil_conv)

definition is_digit :: "char \<Rightarrow> bool" where
  "is_digit c = (c \<in> set ''0123456789'')"

function findall_digits :: "string \<Rightarrow> string list" where
  \<comment> \<open>\<^verbatim>\<open>re.findall(pattern=r'\d+', string=s)\<close>: the maximal runs of digits, left to right\<close>
  "findall_digits [] = []"
| "findall_digits (c # cs) =
     (if is_digit c then takeWhile is_digit (c # cs) # findall_digits (dropWhile is_digit cs)
      else findall_digits cs)"
  by pat_completeness auto
termination
  by (relation "measure length") (auto simp: less_Suc_eq_le length_dropWhile_le)

datatype error = TimeoutException | NoSuchElementException | IndexError | ValueError
  | WebDriverException

definition digit_value :: "char \<Rightarrow> int" where
  "digit_value c = int (of_char c) - 48"

definition int_py :: "string \<Rightarrow> error + int" where
  \<comment> \<open>\<^verbatim>\<open>int(s)\<close> on a decimal string; any other string raises ValueError\<close>
  "int_py s = (if s \<noteq> [] \<and> list_all is_digit s
     then Inr (foldl (\<lambda>a c. 10 * a + digit_value c) 0 s) else Inl ValueError)"

definition round_div10 :: "int \<Rightarrow> int" where
  \<comment> \<open>\<^verbatim>\<open>round(n / 10)\<close>: the quotient rounded to the nearest integer, a tie going to the
     even neighbour (the quotient is taken exactly; Python computes it in a double, which
     agrees for every count below \<open>2 ^ 53\<close>)\<close>
  "round_div10 n = (let q = n div 10; r = n mod 10 in
     if r < 5 then q else if 5 < r then q + 1 else if even q then q else q + 1)"

section \<open>Total-count discovery (lines 202-223 of \<^verbatim>\<open>get_job_posts\<close>)\<close>

text \<open>
  The browser is an oracle. An element is observed through the time it takes to become
  visible (\<open>None\<close>: it never does) and through what reading its text gives (\<open>None\<close>:
  the lookup raises).
\<close>

record element =
  visible_after :: "nat option"
  text_of :: "string option"

definition wait_until_visible :: "nat option \<Rightarrow> nat \<Rightarrow> error + unit" where
  \<comment> \<open>\<^verbatim>\<open>WebDriverWait(driver, duration, frequency).until(visibility_of_element_located(...))\<close>:
     returns once the element is visible, raises TimeoutException after \<open>duration\<close>\<close>
  "wait_until_visible appears duration =
     (case appears of
        None \<Rightarrow> Inl TimeoutException
      | Some t \<Rightarrow> if t \<le> duration then Inr () else Inl TimeoutException)"

definition default_duration :: nat where
  \<comment> \<open>the default of the keyword argument \<^verbatim>\<open>duration=10000\<close>\<close>
  "default_duration = 10000"

definition total_jobs_token :: "string \<Rightarrow> error + string" where
  \<comment> \<open>lines 205-208: strip the commas and the prose, take the first digit run\<close>
  "total_jobs_token txt =
     (let total_jobs = replace ''jobs'' '''' (replace ''Page 1 of'' '''' (replace '','' '''' txt))
      in case findall_digits total_jobs of
           [] \<Rightarrow> Inl IndexError
         | total_jobs # _ \<Rightarrow> Inr total_jobs)"

definition pages_of_text :: "string \<Rightarrow> error + int" where
  \<comment> \<open>line 210: \<^verbatim>\<open>number_of_pages = round(int(total_jobs) / 10)\<close>\<close>
  "pages_of_text txt =
     (case total_jobs_token txt of
        Inl e \<Rightarrow> Inl e
      | Inr total_jobs \<Rightarrow>
          (case int_py total_jobs of Inl e \<Rightarrow> Inl e | Inr n \<Rightarrow> Inr (round_div10 n)))"

definition read_count :: "element \<Rightarrow> nat \<Rightarrow> error + int" where
  \<comment> \<open>the body of one \<^verbatim>\<open>try\<close>: wait for the indicator, read its text, parse it\<close>
  "read_count el duration =
     (case wait_until_visible (visible_after el) duration of
        Inl e \<Rightarrow> Inl e
      | Inr _ \<Rightarrow>
          (case text_of el of
             None \<Rightarrow> Inl NoSuchElementException
           | Some txt \<Rightarrow> pages_of_text txt))"

record search_page =
  results_list :: "nat option"
  job_count_pane :: element
  search_count_pages :: element

definition count_pages :: "search_page \<Rightarrow> int" where
  \<comment> \<open>lines 202-223: the two nested \<^verbatim>\<open>try\<close> blocks with bare \<^verbatim>\<open>except\<close>\<close>
  "count_pages p =
     (case read_count (job_count_pane p) 10 of
        Inr number_of_pages \<Rightarrow> number_of_pages
      | Inl _ \<Rightarrow>
          (case read_count (search_count_pages p) 5 of
             Inr number_of_pages \<Rightarrow> number_of_pages
           | Inl _ \<Rightarrow> 25))"

section \<open>One card (lines 238-332 of \<^verbatim>\<open>get_job_posts\<close>)\<close>

text \<open>
  The ten strings of line 236. They are assigned once per page, before the loop over the
  cards, and every card of the page reads and writes the same ten variables.
\<close>

record job_vars =
  job_title :: string
  company_name :: string
  location :: string
  salary :: string
  job_type :: string
  date_posted :: string
  contact :: string
  reviews :: string
  job_url :: string
  listing_url :: string

definition blank :: job_vars where
  "blank = \<lparr>job_title = '''', company_name = '''', location = '''', salary = '''',
     job_type = '''', date_posted = '''', contact = '''', reviews = '''', job_url = '''',
     listing_url = ''''\<rparr>"

text \<open>
  What the browser answers while card \<open>i\<close> is handled. Each \<open>string option\<close> is the
  value of one lookup expression of the source, \<open>None\<close> when the expression raises
  (the list has no element \<open>i\<close>, the element is gone, the selector matches nothing).
\<close>

record card =
  located :: bool  \<comment> \<open>line 241: the card list still has an element \<open>i\<close>\<close>
  scrolled :: bool  \<comment> \<open>line 243: \<^verbatim>\<open>execute_script\<close> returns\<close>
  title_text :: "string option"  \<comment> \<open>line 266\<close>
  title_href :: "string option"  \<comment> \<open>line 270\<close>
  salary_text :: "string option"  \<comment> \<open>line 274\<close>
  location_text :: "string option"  \<comment> \<open>line 278\<close>
  metadata_text :: "string option"  \<comment> \<open>line 282\<close>
  date_visible :: "nat option"  \<comment> \<open>line 287\<close>
  date_text :: "string option"  \<comment> \<open>line 288\<close>
  company_visible :: "nat option"  \<comment> \<open>line 293\<close>
  company_text :: "string option"  \<comment> \<open>line 294\<close>
  iframe_visible :: "nat option"  \<comment> \<open>line 302\<close>
  frame_switched :: bool  \<comment> \<open>line 304: \<^verbatim>\<open>find_element\<close> and \<^verbatim>\<open>switch_to.frame\<close> return\<close>
  ratings_visible :: "nat option"  \<comment> \<open>line 310\<close>
  ratings_text :: "string option"  \<comment> \<open>line 311\<close>
  default_content_returns :: bool  \<comment> \<open>line 317: \<^verbatim>\<open>switch_to.default_content\<close> returns\<close>

definition after_wait :: "nat option \<Rightarrow> nat \<Rightarrow> 'a option \<Rightarrow> 'a option" where
  \<comment> \<open>a \<^verbatim>\<open>try\<close> body that waits for an element and then reads it; \<open>None\<close> when either raises\<close>
  "after_wait appears duration reading =
     (case wait_until_visible appears duration of Inl _ \<Rightarrow> None | Inr _ \<Rightarrow> reading)"

definition one_line :: "string \<Rightarrow> string" where
  \<comment> \<open>\<^verbatim>\<open>.strip().replace('\n', ' ')\<close>\<close>
  "one_line t = replace [CHR 0x0A] '' '' (strip t)"

definition get_job_title :: "card \<Rightarrow> job_vars \<Rightarrow> job_vars" where
  \<comment> \<open>lines 265-268\<close>
  "get_job_title c v = (case title_text c of Some t \<Rightarrow> v\<lparr>job_title := t\<rparr> | None \<Rightarrow> v)"

definition get_listing_url :: "card \<Rightarrow> job_vars \<Rightarrow> job_vars" where
  \<comment> \<open>lines 269-272\<close>
  "get_listing_url c v = (case title_href c of Some h \<Rightarrow> v\<lparr>listing_url := h\<rparr> | None \<Rightarrow> v)"

definition get_salary :: "card \<Rightarrow> job_vars \<Rightarrow> job_vars" where
  \<comment> \<open>lines 273-276\<close>
  "get_salary c v = (case salary_text c of Some t \<Rightarrow> v\<lparr>salary := one_line t\<rparr> | None \<Rightarrow> v)"

definition get_location :: "card \<Rightarrow> job_vars \<Rightarrow> job_vars" where
  \<comment> \<open>lines 277-280\<close>
  "get_location c v =
     (case location_text c of Some t \<Rightarrow> v\<lparr>location := one_line t\<rparr> | None \<Rightarrow> v)"

definition get_job_type :: "card \<Rightarrow> job_vars \<Rightarrow> job_vars" where
  \<comment> \<open>lines 281-284\<close>
  "get_job_type c v =
     (case metadata_text c of
        Some t \<Rightarrow>
          v\<lparr>job_type := strip (replace ''Job type'' '''' (replace '':'' '''' (one_line t)))\<rparr>
      | None \<Rightarrow> v\<lparr>job_type := ''Full-Time''\<rparr>)"

definition get_date_posted :: "card \<Rightarrow> job_vars \<Rightarrow> job_vars" where
  \<comment> \<open>lines 285-290\<close>
  "get_date_posted c v =
     (case after_wait (date_visible c) 3 (date_text c) of
        Some t \<Rightarrow> v\<lparr>date_posted := replace ''Posted'' '''' (one_line t)\<rparr>
      | None \<Rightarrow> v\<lparr>date_posted := ''Today''\<rparr>)"

definition get_company_name :: "card \<Rightarrow> job_vars \<Rightarrow> job_vars" where
  \<comment> \<open>lines 291-298: the company name and, in the same \<^verbatim>\<open>try\<close>, \<^verbatim>\<open>job_url = listing_url\<close>\<close>
  "get_company_name c v =
     (case after_wait (company_visible c) default_duration (company_text c) of
        Some t \<Rightarrow> v\<lparr>company_name := t, job_url := listing_url v\<rparr>
      | None \<Rightarrow> v)"

definition get_reviews :: "card \<Rightarrow> job_vars \<Rightarrow> job_vars" where
  \<comment> \<open>lines 309-313\<close>
  "get_reviews c v =
     (case after_wait (ratings_visible c) 3 (ratings_text c) of
        Some t \<Rightarrow> v\<lparr>reviews := t\<rparr>
      | None \<Rightarrow> v\<lparr>reviews := ''Reviews Not Found''\<rparr>)"

definition list_fields :: "card \<Rightarrow> job_vars \<Rightarrow> job_vars" where
  \<comment> \<open>lines 265-298, in the order of the source\<close>
  "list_fields c v =
     get_company_name c (get_date_posted c (get_job_type c (get_location c
       (get_salary c (get_listing_url c (get_job_title c v))))))"

definition job_post :: "job_vars \<Rightarrow> (string \<times> string) list" where
  \<comment> \<open>lines 322-324: the dictionary, in the order of its keys\<close>
  "job_post v =
     [(''Job Title'', job_title v), (''Salary'', salary v), (''Job Type'', job_type v),
      (''Location'', location v), (''Company Name'', company_name v),
      (''Date Posted'', date_posted v), (''Reviews'', reviews v), (''Job URL'', job_url v),
      (''Listing URL'', listing_url v)]"

definition to_csv ::
  "(string \<times> string) list \<Rightarrow> string list list option \<Rightarrow> string list list option" where
  \<comment> \<open>lines 326-331. The file is \<open>None\<close> while it does not exist, else its rows. A missing
     file is written with the header (the keys) and the record; an existing one gets the
     record alone.\<close>
  "to_csv post file =
     (case file of
        None \<Rightarrow> Some [map fst post, map snd post]
      | Some rows \<Rightarrow> Some (rows @ [map snd post]))"

datatype browsing_context = Default_content | Iframe

datatype event = Get int | Enter_attempt | Exit_call | To_csv "(string \<times> string) list"

datatype outcome = Returned | Raised error

record session =
  job_count :: int
  pages_scraped :: int
  jobs_scraped :: int
  vars :: job_vars
  current_context :: browsing_context
  file_city :: "string list list option"
  trace :: "event list"  \<comment> \<open>the calls made so far, oldest first\<close>

definition enter_detail_context :: "card \<Rightarrow> session \<Rightarrow> session" where
  \<comment> \<open>lines 299-308: wait 5 for the frame and switch into it; any failure is swallowed\<close>
  "enter_detail_context c s =
     (let s' = s\<lparr>trace := trace s @ [Enter_attempt]\<rparr> in
      case after_wait (iframe_visible c) 5 (if frame_switched c then Some () else None) of
        Some _ \<Rightarrow> s'\<lparr>current_context := Iframe\<rparr>
      | None \<Rightarrow> s')"

definition exit_detail_context :: "card \<Rightarrow> session \<Rightarrow> session" where
  \<comment> \<open>lines 314-320: \<^verbatim>\<open>switch_to.default_content()\<close>; its failure is swallowed as well\<close>
  "exit_detail_context c s =
     (let s' = s\<lparr>trace := trace s @ [Exit_call]\<rparr> in
      if default_content_returns c then s'\<lparr>current_context := Default_content\<rparr> else s')"

definition save_job_post :: "session \<Rightarrow> session" where
  \<comment> \<open>lines 321-332\<close>
  "save_job_post s =
     s\<lparr>file_city := to_csv (job_post (vars s)) (file_city s),
       trace := trace s @ [To_csv (job_post (vars s))]\<rparr>"

definition process_card :: "card \<Rightarrow> session \<Rightarrow> outcome \<times> session" where
  \<comment> \<open>lines 241-332. Lines 241 and 243 stand outside every \<^verbatim>\<open>try\<close>: their failure leaves
     the function. The clicks of lines 246-262 swallow every failure and assign nothing.\<close>
  "process_card c s =
     (if \<not> located c then (Raised IndexError, s)
      else if \<not> scrolled c then (Raised WebDriverException, s)
      else
        let s1 = s\<lparr>vars := list_fields c (vars s)\<rparr>;
            s2 = enter_detail_context c s1;
            s3 = s2\<lparr>vars := get_reviews c (vars s2)\<rparr>;
            s4 = exit_detail_context c s3
        in (Returned, save_job_post s4))"

fun process_cards :: "card list \<Rightarrow> session \<Rightarrow> outcome \<times> session" where
  \<comment> \<open>the loop of line 238\<close>
  "process_cards [] s = (Returned, s)"
| "process_cards (c # cs) s =
     (case process_card c s of
        (Raised e, s') \<Rightarrow> (Raised e, s')
      | (Returned, s') \<Rightarrow> process_cards cs s')"

section \<open>The pages of one city (lines 187-235)\<close>

record results_page =
  results_list_visible :: "nat option"  \<comment> \<open>line 237\<close>
  cards :: "card list"  \<comment> \<open>line 238\<close>

definition begin_page :: "session \<Rightarrow> session" where
  \<comment> \<open>lines 228-236: request \<^verbatim>\<open>start={job_count}\<close>, advance the counters, blank the strings\<close>
  "begin_page s =
     s\<lparr>trace := trace s @ [Get (job_count s)],
       job_count := job_count s + 10,
       pages_scraped := pages_scraped s + 1,
       jobs_scraped := jobs_scraped s + 15,
       vars := blank\<rparr>"

definition scrape_page :: "results_page \<Rightarrow> session \<Rightarrow> outcome \<times> session" where
  \<comment> \<open>the body of the loop of line 227\<close>
  "scrape_page p s =
     (let s1 = begin_page s in
      case wait_until_visible (results_list_visible p) 30 of
        Inl e \<Rightarrow> (Raised e, s1)
      | Inr _ \<Rightarrow> process_cards (cards p) s1)"

definition range_py :: "int \<Rightarrow> int \<Rightarrow> int list" where
  \<comment> \<open>\<^verbatim>\<open>range(a, b)\<close>\<close>
  "range_py a b = [a..b - 1]"

record site =
  first_page :: search_page  \<comment> \<open>what \<^verbatim>\<open>start=0\<close> shows (lines 195-223)\<close>
  page_at :: "int \<Rightarrow> results_page"  \<comment> \<open>what \<^verbatim>\<open>start={job_count}\<close> shows\<close>

fun page_loop :: "site \<Rightarrow> int list \<Rightarrow> session \<Rightarrow> outcome \<times> session" where
  \<comment> \<open>line 227: \<^verbatim>\<open>for page in range(pages_scraped, number_of_pages)\<close>; the range is built
     once, and the body never reads \<open>page\<close>\<close>
  "page_loop w [] s = (Returned, s)"
| "page_loop w (page # pages) s =
     (case scrape_page (page_at w (job_count s)) s of
        (Raised e, s') \<Rightarrow> (Raised e, s')
      | (Returned, s') \<Rightarrow> page_loop w pages s')"

definition launch :: "string list list option \<Rightarrow> session" where
  \<comment> \<open>lines 188-195: a new browser, in its default content, sent to \<^verbatim>\<open>start=0\<close>; the
     counters are not assigned yet\<close>
  "launch file =
     \<lparr>job_count = 0, pages_scraped = 0, jobs_scraped = 0, vars = blank,
      current_context = Default_content, file_city = file, trace = [Get 0]\<rparr>"

definition checkpoint :: "session \<Rightarrow> session" where
  \<comment> \<open>lines 224-226\<close>
  "checkpoint s = s\<lparr>job_count := 1510, pages_scraped := 151, jobs_scraped := 151 * 15\<rparr>"

definition get_job_posts :: "site \<Rightarrow> string list list option \<Rightarrow> outcome \<times> session" where
  \<comment> \<open>the whole function, for one city whose file is \<open>file\<close> when it starts\<close>
  "get_job_posts w file =
     (let s0 = launch file in
      case wait_until_visible (results_list (first_page w)) 30 of
        Inl e \<Rightarrow> (Raised e, s0)
      | Inr _ \<Rightarrow>
          (let number_of_pages = count_pages (first_page w);
               s1 = checkpoint s0
           in page_loop w (range_py (pages_scraped s1) number_of_pages) s1))"

section \<open>Vocabulary of the properties\<close>

datatype field = Job_title | Listing_url | Salary | Location | Job_type | Date_posted
  | Company_name | Reviews | Job_url

fun field_value :: "field \<Rightarrow> job_vars \<Rightarrow> string" where
  "field_value Job_title v = job_title v"
| "field_value Listing_url v = listing_url v"
| "field_value Salary v = salary v"
| "field_value Location v = location v"
| "field_value Job_type v = job_type v"
| "field_value Date_posted v = date_posted v"
| "field_value Company_name v = company_name v"
| "field_value Reviews v = reviews v"
| "field_value Job_url v = job_url v"

fun observation :: "field \<Rightarrow> card \<Rightarrow> nat option \<times> string option" where
  \<comment> \<open>what the strategy of a field sees of a card: the wait, if it has one, and the
     lookup; the job URL has no lookup of its own\<close>
  "observation Job_title c = (None, title_text c)"
| "observation Listing_url c = (None, title_href c)"
| "observation Salary c = (None, salary_text c)"
| "observation Location c = (None, location_text c)"
| "observation Job_type c = (None, metadata_text c)"
| "observation Date_posted c = (date_visible c, date_text c)"
| "observation Company_name c = (company_visible c, company_text c)"
| "observation Reviews c = (ratings_visible c, ratings_text c)"
| "observation Job_url c = (None, None)"

definition emitted :: "event list \<Rightarrow> (string \<times> string) list list" where
  \<comment> \<open>the job posts handed to \<^verbatim>\<open>to_csv\<close>, oldest first\<close>
  "emitted es = concat (map (\<lambda>e. case e of To_csv post \<Rightarrow> [post] | _ \<Rightarrow> []) es)"

definition columns :: "string list" where
  "columns = [''Job Title'', ''Salary'', ''Job Type'', ''Location'', ''Company Name'',
     ''Date Posted'', ''Reviews'', ''Job URL'', ''Listing URL'']"

definition stored ::
  "string list list option \<Rightarrow> (string \<times> string) list list \<Rightarrow> string list list option" where
  \<comment> \<open>the file after the given job posts were appended to it, one by one\<close>
  "stored file posts = foldl (\<lambda>file post. to_csv post file) file posts"

definition written :: "string list list option \<Rightarrow> session \<Rightarrow> bool" where
  \<comment> \<open>the file is what appending the emitted job posts to the first file gives, and every
     emitted job post has the keys of the schema\<close>
  "written file s \<longleftrightarrow>
     file_city s = stored file (emitted (trace s))
     \<and> list_all (\<lambda>post. map fst post = columns) (emitted (trace s))"

section \<open>The page loop as the spec words it\<close>

text \<open>
  The spec describes the loop of line 227 by its state: after each page the offset grows
  by 10 and the page counter by 1, and the loop ends when \<open>pagesScraped \<ge> pagesTotal\<close>; a
  page whose results never show ends the run. \<open>spec_page_loop\<close> is that loop, a
  \<^verbatim>\<open>while pages_scraped < pages_total\<close>; it is compared with \<open>page_loop\<close>, the loop of
  the source, below. It terminates because every page advances the counter.
\<close>

lemma process_card_keeps_counters:
  "job_count (snd (process_card c s)) = job_count s
   \<and> pages_scraped (snd (process_card c s)) = pages_scraped s"
  by (simp add: process_card_def enter_detail_context_def exit_detail_context_def
      save_job_post_def Let_def split: option.split)

lemma process_cards_keep_counters:
  "job_count (snd (process_cards cs s)) = job_count s
   \<and> pages_scraped (snd (process_cards cs s)) = pages_scraped s"
proof (induction cs arbitrary: s)
  case Nil
  show ?case by simp
next
  case (Cons c cs)
  show ?case
  proof (cases "process_card c s")
    case (Pair r s')
    then have "job_count s' = job_count s \<and> pages_scraped s' = pages_scraped s"
      using process_card_keeps_counters [of c s] by simp
    then show ?thesis
      using Pair Cons.IH [of s'] by (cases r) simp_all
  qed
qed

lemma scrape_page_counters:
  "job_count (snd (scrape_page p s)) = job_count s + 10
   \<and> pages_scraped (snd (scrape_page p s)) = pages_scraped s + 1"
proof (cases "wait_until_visible (results_list_visible p) 30")
  case (Inl e)
  then show ?thesis
    by (simp add: scrape_page_def begin_page_def)
next
  case (Inr u)
  then show ?thesis
    using process_cards_keep_counters [of "cards p" "begin_page s"]
    by (simp add: scrape_page_def) (simp add: begin_page_def)
qed

function spec_page_loop :: "site \<Rightarrow> int \<Rightarrow> session \<Rightarrow> outcome \<times> session" where
  "spec_page_loop w pages_total s =
     (if pages_total \<le> pages_scraped s then (Returned, s)
      else
        case scrape_page (page_at w (job_count s)) s of
          (Raised e, s') \<Rightarrow> (Raised e, s')
        | (Returned, s') \<Rightarrow> spec_page_loop w pages_total s')"
  by pat_completeness auto
termination
proof (relation "measure (\<lambda>(w, pages_total, s). nat (pages_total - pages_scraped s))")
  show "wf (measure (\<lambda>(w, pages_total, s). nat (pages_total - pages_scraped s)))"
    by simp
next
  fix w :: site and pages_total :: int and s :: session and r s'
  assume more: "\<not> pages_total \<le> pages_scraped s"
    and page: "(r, s') = scrape_page (page_at w (job_count s)) s"
  have "pages_scraped s' = pages_scraped s + 1"
    using scrape_page_counters [of "page_at w (job_count s)" s] page [symmetric] by simp
  then show "((w, pages_total, s'), (w, pages_total, s))
      \<in> measure (\<lambda>(w, pages_total, s). nat (pages_total - pages_scraped s))"
    using more by simp
qed

declare spec_page_loop.simps [simp del]

section \<open>Sample observations\<close>

text \<open>Concrete pages and cards, on which the theorems below are instantiated.\<close>

definition absent :: element where
  "absent = \<lparr>visible_after = None, text_of = None\<rparr>"

definition late_pane :: search_page where
  \<comment> \<open>the count pane shows after 20 time units, the legacy indicator after 3\<close>
  "late_pane = \<lparr>results_list = Some 1,
     job_count_pane = \<lparr>visible_after = Some 20, text_of = Some ''2,000 jobs''\<rparr>,
     search_count_pages = \<lparr>visible_after = Some 3, text_of = Some ''Page 1 of 148 jobs''\<rparr>\<rparr>"

definition no_count :: search_page where
  \<comment> \<open>the count pane shows after 20 time units, the legacy indicator never\<close>
  "no_count = \<lparr>results_list = Some 1,
     job_count_pane = \<lparr>visible_after = Some 20, text_of = Some ''2,000 jobs''\<rparr>,
     search_count_pages = absent\<rparr>"

definition full_card :: card where
  \<comment> \<open>a card on which every lookup answers\<close>
  "full_card = \<lparr>located = True, scrolled = True, title_text = Some ''Line Cook'',
     title_href = Some ''https://ca.indeed.com/rc/clk?jk=1'',
     salary_text = Some ''$18 an hour'', location_text = Some ''Toronto, ON'',
     metadata_text = Some ''Job type: Part-time'',
     date_visible = Some 1, date_text = Some ''Posted 3 days ago'',
     company_visible = Some 0, company_text = Some ''Maple Diner'',
     iframe_visible = Some 2, frame_switched = True,
     ratings_visible = Some 1, ratings_text = Some ''12 reviews'',
     default_content_returns = True\<rparr>"

definition bare_card :: card where
  \<comment> \<open>a card on which every lookup of a field raises\<close>
  "bare_card = \<lparr>located = True, scrolled = True, title_text = None, title_href = None,
     salary_text = None, location_text = None, metadata_text = None,
     date_visible = None, date_text = None, company_visible = None, company_text = None,
     iframe_visible = None, frame_switched = False,
     ratings_visible = None, ratings_text = None, default_content_returns = True\<rparr>"

definition two_cards :: results_page where
  "two_cards = \<lparr>results_list_visible = Some 1, cards = [full_card, bare_card]\<rparr>"

definition small_site :: site where
  \<comment> \<open>1,523 jobs, that is 152 pages: one page beyond the checkpoint\<close>
  "small_site = \<lparr>first_page = \<lparr>results_list = Some 1,
       job_count_pane = \<lparr>visible_after = Some 2, text_of = Some ''1,523 jobs''\<rparr>,
       search_count_pages = absent\<rparr>,
     page_at = (\<lambda>start. two_cards)\<rparr>"

definition unread_site :: site where
  \<comment> \<open>no count indicator in time: 25 pages\<close>
  "unread_site = \<lparr>first_page = no_count, page_at = (\<lambda>start. two_cards)\<rparr>"

section \<open>One card: what a card does to the session\<close>

lemma process_card_not_located:
  "\<not> located c \<Longrightarrow> process_card c s = (Raised IndexError, s)"
  by (simp add: process_card_def)

lemma process_card_not_scrolled:
  "located c \<Longrightarrow> \<not> scrolled c \<Longrightarrow> process_card c s = (Raised WebDriverException, s)"
  by (simp add: process_card_def)

lemma process_card_returned:
  assumes "located c" and "scrolled c"
  shows "process_card c s =
    (Returned,
     s\<lparr>vars := get_reviews c (list_fields c (vars s)),
       current_context :=
         (if default_content_returns c then Default_content
          else case after_wait (iframe_visible c) 5
                 (if frame_switched c then Some () else None) of
                 Some _ \<Rightarrow> Iframe | None \<Rightarrow> current_context s),
       file_city := to_csv (job_post (get_reviews c (list_fields c (vars s)))) (file_city s),
       trace := trace s @ [Enter_attempt, Exit_call,
         To_csv (job_post (get_reviews c (list_fields c (vars s))))]\<rparr>)"
  using assms
  by (simp add: process_card_def enter_detail_context_def exit_detail_context_def
      save_job_post_def Let_def split: option.split)

lemma emitted_append [simp]: "emitted (xs @ ys) = emitted xs @ emitted ys"
  by (simp add: emitted_def)

lemma emitted_simps [simp]:
  "emitted [] = []"
  "emitted (Get k # es) = emitted es"
  "emitted (Enter_attempt # es) = emitted es"
  "emitted (Exit_call # es) = emitted es"
  "emitted (To_csv post # es) = post # emitted es"
  by (simp_all add: emitted_def)

lemma columns_job_post: "map fst (job_post v) = columns"
  by (simp add: job_post_def columns_def)

text \<open>
  A property of the session that the start, the checkpoint, every page request and every
  card keep holds at the end of every run, whether the run returns or raises. The cards
  may be restricted to those with a property \<open>Q\<close> that all cards of the site have.
\<close>

lemma process_cards_invariant:
  assumes card: "\<And>c s. Q c \<Longrightarrow> P s \<Longrightarrow> P (snd (process_card c s))"
  shows "\<forall>c \<in> set cs. Q c \<Longrightarrow> P s \<Longrightarrow> P (snd (process_cards cs s))"
proof (induction cs arbitrary: s)
  case Nil
  then show ?case by simp
next
  case (Cons c cs)
  have "Q c"
    using Cons.prems(1) by simp
  then have step: "P (snd (process_card c s))"
    using Cons.prems(2) by (rule card)
  have rest: "\<forall>c \<in> set cs. Q c"
    using Cons.prems(1) by simp
  show ?case
  proof (cases "process_card c s")
    case (Pair r s')
    with step have "P s'" by simp
    then show ?thesis
      using Pair Cons.IH [OF rest, of s'] by (cases r) simp_all
  qed
qed

lemma scrape_page_invariant:
  assumes card: "\<And>c s. Q c \<Longrightarrow> P s \<Longrightarrow> P (snd (process_card c s))"
    and page: "\<And>s. P s \<Longrightarrow> P (begin_page s)"
    and all: "\<forall>c \<in> set (cards p). Q c"
    and start: "P s"
  shows "P (snd (scrape_page p s))"
proof (cases "wait_until_visible (results_list_visible p) 30")
  case (Inl e)
  then show ?thesis
    using page [OF start] by (simp add: scrape_page_def)
next
  case (Inr u)
  have "P (snd (process_cards (cards p) (begin_page s)))"
    using card all page [OF start]
    by (rule process_cards_invariant [where P = P and Q = Q])
  then show ?thesis
    using Inr by (simp add: scrape_page_def)
qed

lemma page_loop_invariant:
  assumes card: "\<And>c s. Q c \<Longrightarrow> P s \<Longrightarrow> P (snd (process_card c s))"
    and page: "\<And>s. P s \<Longrightarrow> P (begin_page s)"
    and all: "\<And>start. \<forall>c \<in> set (cards (page_at w start)). Q c"
  shows "P s \<Longrightarrow> P (snd (page_loop w pages s))"
proof (induction pages arbitrary: s)
  case Nil
  then show ?case by simp
next
  case (Cons page pages)
  have step: "P (snd (scrape_page (page_at w (job_count s)) s))"
    using card page all Cons.prems by (rule scrape_page_invariant [where P = P and Q = Q])
  show ?case
  proof (cases "scrape_page (page_at w (job_count s)) s")
    case (Pair r s')
    with step have "P s'" by simp
    then show ?thesis
      using Pair Cons.IH [of s'] by (cases r) simp_all
  qed
qed

lemma get_job_posts_invariant:
  assumes card: "\<And>c s. Q c \<Longrightarrow> P s \<Longrightarrow> P (snd (process_card c s))"
    and page: "\<And>s. P s \<Longrightarrow> P (begin_page s)"
    and all: "\<And>start. \<forall>c \<in> set (cards (page_at w start)). Q c"
    and start: "P (launch file)"
    and mark: "P (checkpoint (launch file))"
  shows "P (snd (get_job_posts w file))"
proof (cases "wait_until_visible (results_list (first_page w)) 30")
  case (Inl e)
  then show ?thesis
    using start by (simp add: get_job_posts_def)
next
  case (Inr u)
  have "P (snd (page_loop w
      (range_py (pages_scraped (checkpoint (launch file))) (count_pages (first_page w)))
      (checkpoint (launch file))))"
    using card page all mark by (rule page_loop_invariant [where P = P and Q = Q])
  then show ?thesis
    using Inr by (simp add: get_job_posts_def Let_def)
qed

section \<open>Total-count discovery: theorems\<close>

lemma wait_until_visible_Some:
  "wait_until_visible (Some t) d = (if t \<le> d then Inr () else Inl TimeoutException)"
  by (simp add: wait_until_visible_def)

lemma wait_until_visible_None: "wait_until_visible None d = Inl TimeoutException"
  by (simp add: wait_until_visible_def)

lemma read_count_timeout:
  "wait_until_visible (visible_after el) d = Inl e \<Longrightarrow> read_count el d = Inl e"
  by (simp add: read_count_def)

lemma read_count_absent: "read_count absent d = Inl TimeoutException"
  by (simp add: read_count_def absent_def wait_until_visible_None)

lemma pages_2000: "pages_of_text ''2,000 jobs'' = Inr 200"
  by code_simp

lemma pages_148: "pages_of_text ''Page 1 of 148 jobs'' = Inr 15"
  by code_simp

text \<open>
  C6. The indicator text \<^verbatim>\<open>1,234 jobs Page 1 of\<close> loses its comma and its prose, its first
  digit run is \<^verbatim>\<open>1234\<close>, which reads as 1234 jobs and gives \<open>round (1234 / 10) = 123\<close>
  pages; a search page whose count pane shows this text in time has 123 pages.
\<close>

theorem total_count_parse_example:
  "total_jobs_token ''1,234 jobs Page 1 of'' = Inr ''1234''
   \<and> int_py ''1234'' = Inr 1234
   \<and> round_div10 1234 = 123
   \<and> pages_of_text ''1,234 jobs Page 1 of'' = Inr 123
   \<and> count_pages \<lparr>results_list = Some 1,
        job_count_pane = \<lparr>visible_after = Some 2, text_of = Some ''1,234 jobs Page 1 of''\<rparr>,
        search_count_pages = absent\<rparr> = 123"
proof -
  have token: "total_jobs_token ''1,234 jobs Page 1 of'' = Inr ''1234''"
    by code_simp
  have number: "int_py ''1234'' = Inr 1234"
    by code_simp
  have rounded: "round_div10 1234 = 123"
    by (simp add: round_div10_def Let_def)
  have pages: "pages_of_text ''1,234 jobs Page 1 of'' = Inr 123"
    by (simp add: pages_of_text_def token number rounded)
  show ?thesis
    by (simp add: token number rounded pages count_pages_def read_count_def
        wait_until_visible_Some)
qed

text \<open>
  C7. When the wait for the count pane times out and the wait for the legacy indicator
  times out as well, the number of pages is 25.
\<close>

theorem both_indicators_time_out:
  assumes "wait_until_visible (visible_after (job_count_pane p)) 10 = Inl TimeoutException"
    and "wait_until_visible (visible_after (search_count_pages p)) 5 = Inl TimeoutException"
  shows "count_pages p = 25"
  using assms by (simp add: count_pages_def read_count_timeout)

theorem both_indicators_time_out_witness: "count_pages no_count = 25"
proof -
  have first: "wait_until_visible (visible_after (job_count_pane no_count)) 10
      = Inl TimeoutException"
    by (simp add: no_count_def wait_until_visible_Some)
  have second: "wait_until_visible (visible_after (search_count_pages no_count)) 5
      = Inl TimeoutException"
    by (simp add: no_count_def absent_def wait_until_visible_None)
  show ?thesis
    by (rule both_indicators_time_out [OF first second])
qed

text \<open>
  C9, as the spec states it, would have a count pane that shows after 20 time units (at
  most 30) decide the number of pages. The code waits 10 for it: on \<open>no_count\<close> the pane's
  200 pages are not used and the number of pages is the default 25.
\<close>

theorem primary_wait_30_counterexample:
  "visible_after (job_count_pane no_count) = Some 20
   \<and> (20 :: nat) \<le> 30
   \<and> map_option pages_of_text (text_of (job_count_pane no_count)) = Some (Inr 200)
   \<and> read_count (job_count_pane no_count) 10 = Inl TimeoutException
   \<and> count_pages no_count = 25"
proof -
  have pane: "read_count (job_count_pane no_count) 10 = Inl TimeoutException"
    by (simp add: no_count_def read_count_def wait_until_visible_Some)
  have legacy: "read_count (search_count_pages no_count) 5 = Inl TimeoutException"
    by (simp add: no_count_def read_count_absent)
  have "count_pages no_count = 25"
    by (simp add: count_pages_def pane legacy)
  then show ?thesis
    by (simp add: pane) (simp add: no_count_def pages_2000)
qed

text \<open>
  C9, amended. The count pane is waited for up to 10 time units: when it shows in time
  with a text that parses, its count decides, and when it shows later the result is the
  one of a page without it. The legacy indicator is waited for up to 5 time units: when
  the count pane gave nothing, it decides if it shows in time, and the number of pages
  is 25 if it shows later.
\<close>

theorem count_wait_bounds:
  "(visible_after (job_count_pane p) = Some t \<and> text_of (job_count_pane p) = Some txt
      \<and> pages_of_text txt = Inr n \<longrightarrow>
        (t \<le> 10 \<longrightarrow> count_pages p = n)
        \<and> (10 < t \<longrightarrow> count_pages p = count_pages (p\<lparr>job_count_pane := absent\<rparr>)))
   \<and> (read_count (job_count_pane p) 10 = Inl e
      \<and> visible_after (search_count_pages p) = Some u
      \<and> text_of (search_count_pages p) = Some txt' \<and> pages_of_text txt' = Inr m \<longrightarrow>
        (u \<le> 5 \<longrightarrow> count_pages p = m) \<and> (5 < u \<longrightarrow> count_pages p = 25))"
  by (simp add: count_pages_def read_count_def wait_until_visible_Some read_count_absent
      absent_def wait_until_visible_None)

theorem count_wait_bounds_witness:
  "count_pages late_pane = count_pages (late_pane\<lparr>job_count_pane := absent\<rparr>)
   \<and> count_pages late_pane = 15"
  using count_wait_bounds [of late_pane 20 "''2,000 jobs''" 200 TimeoutException 3
      "''Page 1 of 148 jobs''" 15]
  by (simp add: late_pane_def pages_2000 pages_148 read_count_def wait_until_visible_Some)

section \<open>The fields of one card: theorems\<close>

lemma get_job_title_sel:
  "job_title (get_job_title c v) = (case title_text c of Some t \<Rightarrow> t | None \<Rightarrow> job_title v)"
  "company_name (get_job_title c v) = company_name v"
  "location (get_job_title c v) = location v"
  "salary (get_job_title c v) = salary v"
  "job_type (get_job_title c v) = job_type v"
  "date_posted (get_job_title c v) = date_posted v"
  "contact (get_job_title c v) = contact v"
  "reviews (get_job_title c v) = reviews v"
  "job_url (get_job_title c v) = job_url v"
  "listing_url (get_job_title c v) = listing_url v"
  by (simp_all add: get_job_title_def split: option.split)

lemma get_listing_url_sel:
  "job_title (get_listing_url c v) = job_title v"
  "company_name (get_listing_url c v) = company_name v"
  "location (get_listing_url c v) = location v"
  "salary (get_listing_url c v) = salary v"
  "job_type (get_listing_url c v) = job_type v"
  "date_posted (get_listing_url c v) = date_posted v"
  "contact (get_listing_url c v) = contact v"
  "reviews (get_listing_url c v) = reviews v"
  "job_url (get_listing_url c v) = job_url v"
  "listing_url (get_listing_url c v) = (case title_href c of Some h \<Rightarrow> h | None \<Rightarrow> listing_url v)"
  by (simp_all add: get_listing_url_def split: option.split)

lemma get_salary_sel:
  "job_title (get_salary c v) = job_title v"
  "company_name (get_salary c v) = company_name v"
  "location (get_salary c v) = location v"
  "salary (get_salary c v) = (case salary_text c of Some t \<Rightarrow> one_line t | None \<Rightarrow> salary v)"
  "job_type (get_salary c v) = job_type v"
  "date_posted (get_salary c v) = date_posted v"
  "contact (get_salary c v) = contact v"
  "reviews (get_salary c v) = reviews v"
  "job_url (get_salary c v) = job_url v"
  "listing_url (get_salary c v) = listing_url v"
  by (simp_all add: get_salary_def split: option.split)

lemma get_location_sel:
  "job_title (get_location c v) = job_title v"
  "company_name (get_location c v) = company_name v"
  "location (get_location c v) = (case location_text c of Some t \<Rightarrow> one_line t | None \<Rightarrow> location v)"
  "salary (get_location c v) = salary v"
  "job_type (get_location c v) = job_type v"
  "date_posted (get_location c v) = date_posted v"
  "contact (get_location c v) = contact v"
  "reviews (get_location c v) = reviews v"
  "job_url (get_location c v) = job_url v"
  "listing_url (get_location c v) = listing_url v"
  by (simp_all add: get_location_def split: option.split)

lemma get_job_type_sel:
  "job_title (get_job_type c v) = job_title v"
  "company_name (get_job_type c v) = company_name v"
  "location (get_job_type c v) = location v"
  "salary (get_job_type c v) = salary v"
  "job_type (get_job_type c v) = (case metadata_text c of
        Some t \<Rightarrow> strip (replace ''Job type'' '''' (replace '':'' '''' (one_line t)))
      | None \<Rightarrow> ''Full-Time'')"
  "date_posted (get_job_type c v) = date_posted v"
  "contact (get_job_type c v) = contact v"
  "reviews (get_job_type c v) = reviews v"
  "job_url (get_job_type c v) = job_url v"
  "listing_url (get_job_type c v) = listing_url v"
  by (simp_all add: get_job_type_def split: option.split)

lemma get_date_posted_sel:
  "job_title (get_date_posted c v) = job_title v"
  "company_name (get_date_posted c v) = company_name v"
  "location (get_date_posted c v) = location v"
  "salary (get_date_posted c v) = salary v"
  "job_type (get_date_posted c v) = job_type v"
  "date_posted (get_date_posted c v) = (case after_wait (date_visible c) 3 (date_text c) of
        Some t \<Rightarrow> replace ''Posted'' '''' (one_line t)
      | None \<Rightarrow> ''Today'')"
  "contact (get_date_posted c v) = contact v"
  "reviews (get_date_posted c v) = reviews v"
  "job_url (get_date_posted c v) = job_url v"
  "listing_url (get_date_posted c v) = listing_url v"
  by (simp_all add: get_date_posted_def split: option.split)

lemma get_company_name_sel:
  "job_title (get_company_name c v) = job_title v"
  "company_name (get_company_name c v) = (case after_wait (company_visible c) default_duration (company_text c) of
        Some t \<Rightarrow> t | None \<Rightarrow> company_name v)"
  "location (get_company_name c v) = location v"
  "salary (get_company_name c v) = salary v"
  "job_type (get_company_name c v) = job_type v"
  "date_posted (get_company_name c v) = date_posted v"
  "contact (get_company_name c v) = contact v"
  "reviews (get_company_name c v) = reviews v"
  "job_url (get_company_name c v) = (case after_wait (company_visible c) default_duration (company_text c) of
        Some t \<Rightarrow> listing_url v | None \<Rightarrow> job_url v)"
  "listing_url (get_company_name c v) = listing_url v"
  by (simp_all add: get_company_name_def split: option.split)

lemma get_reviews_sel:
  "job_title (get_reviews c v) = job_title v"
  "company_name (get_reviews c v) = company_name v"
  "location (get_reviews c v) = location v"
  "salary (get_reviews c v) = salary v"
  "job_type (get_reviews c v) = job_type v"
  "date_posted (get_reviews c v) = date_posted v"
  "contact (get_reviews c v) = contact v"
  "reviews (get_reviews c v) = (case after_wait (ratings_visible c) 3 (ratings_text c) of
        Some t \<Rightarrow> t | None \<Rightarrow> ''Reviews Not Found'')"
  "job_url (get_reviews c v) = job_url v"
  "listing_url (get_reviews c v) = listing_url v"
  by (simp_all add: get_reviews_def split: option.split)

lemmas field_sel = get_job_title_sel get_listing_url_sel get_salary_sel get_location_sel
  get_job_type_sel get_date_posted_sel get_company_name_sel get_reviews_sel

lemma vars_process_card:
  "located c \<Longrightarrow> scrolled c \<Longrightarrow>
    vars (snd (process_card c s)) = get_reviews c (list_fields c (vars s))"
  by (simp add: process_card_returned)

lemma own_observation_decides:
  assumes "g \<noteq> Job_url" and "observation g c = observation g c'"
  shows "field_value g (get_reviews c (list_fields c v))
    = field_value g (get_reviews c' (list_fields c' v))"
  using assms by (cases g) (simp_all add: list_fields_def field_sel split: option.split)

lemma job_url_decided:
  assumes "observation Listing_url c = observation Listing_url c'"
    and "observation Company_name c = observation Company_name c'"
  shows "job_url (get_reviews c (list_fields c v)) = job_url (get_reviews c' (list_fields c' v))"
  using assms by (simp add: list_fields_def field_sel split: option.split)

lemma process_cards_all_returned:
  "\<forall>c \<in> set cs. located c \<and> scrolled c \<Longrightarrow>
    fst (process_cards cs s) = Returned
    \<and> length (emitted (trace (snd (process_cards cs s)))) = length (emitted (trace s)) + length cs"
proof (induction cs arbitrary: s)
  case Nil
  show ?case by simp
next
  case (Cons c cs)
  have here: "located c" "scrolled c"
    using Cons.prems by simp_all
  have rest: "\<forall>c \<in> set cs. located c \<and> scrolled c"
    using Cons.prems by simp
  obtain s' where card: "process_card c s = (Returned, s')"
    and emitted: "length (emitted (trace s')) = Suc (length (emitted (trace s)))"
    by (simp add: process_card_returned [OF here])
  have "process_cards (c # cs) s = process_cards cs s'"
    by (simp add: card)
  then show ?case
    using Cons.IH [OF rest, of s'] by (simp add: emitted)
qed

lemma other_fields_unaffected:
  assumes ok: "located c" "scrolled c" "located c'" "scrolled c'"
    and same: "\<And>h. h \<noteq> f \<Longrightarrow> observation h c = observation h c'"
    and other: "g \<noteq> f"
    and derived: "g = Job_url \<Longrightarrow> f \<noteq> Listing_url \<and> f \<noteq> Company_name"
  shows "field_value g (vars (snd (process_card c s)))
    = field_value g (vars (snd (process_card c' s)))"
proof -
  have "field_value g (get_reviews c (list_fields c (vars s)))
      = field_value g (get_reviews c' (list_fields c' (vars s)))"
  proof (cases "g = Job_url")
    case True
    have "observation Listing_url c = observation Listing_url c'"
      using derived [OF True] by (intro same) blast
    moreover have "observation Company_name c = observation Company_name c'"
      using derived [OF True] by (intro same) blast
    ultimately have "job_url (get_reviews c (list_fields c (vars s)))
        = job_url (get_reviews c' (list_fields c' (vars s)))"
      by (rule job_url_decided)
    then show ?thesis
      by (simp only: True field_value.simps)
  next
    case False
    then show ?thesis
      using same [OF other] by (rule own_observation_decides)
  qed
  then show ?thesis
    by (simp only: vars_process_card [OF ok(1,2)] vars_process_card [OF ok(3,4)])
qed

lemma own_lookup_decides:
  "located c \<and> scrolled c \<longrightarrow>
     (title_text c = Some title \<longrightarrow> job_title (vars (snd (process_card c s))) = title)
     \<and> (title_href c = Some href \<longrightarrow> listing_url (vars (snd (process_card c s))) = href)
     \<and> (salary_text c = Some pay \<longrightarrow> salary (vars (snd (process_card c s))) = one_line pay)
     \<and> (location_text c = Some place \<longrightarrow>
          location (vars (snd (process_card c s))) = one_line place)
     \<and> (metadata_text c = Some kind \<longrightarrow>
          job_type (vars (snd (process_card c s)))
            = strip (replace ''Job type'' '''' (replace '':'' '''' (one_line kind))))
     \<and> (after_wait (date_visible c) 3 (date_text c) = Some day \<longrightarrow>
          date_posted (vars (snd (process_card c s))) = replace ''Posted'' '''' (one_line day))
     \<and> (after_wait (company_visible c) default_duration (company_text c) = Some firm \<longrightarrow>
          company_name (vars (snd (process_card c s))) = firm)
     \<and> (after_wait (ratings_visible c) 3 (ratings_text c) = Some rating \<longrightarrow>
          reviews (vars (snd (process_card c s))) = rating)"
  by (simp add: process_card_returned list_fields_def field_sel)

lemma process_cards_raised:
  assumes "located c" and "scrolled c"
  shows "process_cards (c # cs) s = process_cards cs (snd (process_card c s))"
  by (simp add: process_card_returned [OF assms])

text \<open>
  C2, as the spec states it, fails twice. Where the company name is not found: the
  assignment \<^verbatim>\<open>job_url = listing_url\<close> stands in the \<^verbatim>\<open>try\<close> of the company name (lines
  291-298), so on the first card of a page a company name that never shows leaves the
  job URL empty although the listing URL of the same card was read. And where a card
  cannot be reached: the lookup of the card and the scroll to it (lines 241 and 243)
  stand outside every \<^verbatim>\<open>try\<close>, unlike every later step of the card, so of three cards
  whose second cannot be scrolled to, the first is written, the loop raises and the third
  is never handled.
\<close>

theorem field_and_card_failures_counterexample:
  "observation Listing_url (full_card\<lparr>company_visible := None\<rparr>)
     = observation Listing_url full_card
   \<and> field_value Listing_url
       (vars (snd (process_card (full_card\<lparr>company_visible := None\<rparr>) (begin_page (checkpoint (launch None))))))
     = ''https://ca.indeed.com/rc/clk?jk=1''
   \<and> field_value Job_url
       (vars (snd (process_card (full_card\<lparr>company_visible := None\<rparr>) (begin_page (checkpoint (launch None))))))
     = ''''
   \<and> field_value Job_url (vars (snd (process_card full_card (begin_page (checkpoint (launch None))))))
     = ''https://ca.indeed.com/rc/clk?jk=1''
   \<and> fst (process_cards [full_card, full_card\<lparr>scrolled := False\<rparr>, full_card]
       (begin_page (checkpoint (launch None)))) = Raised WebDriverException
   \<and> length (emitted (trace (snd (process_cards
       [full_card, full_card\<lparr>scrolled := False\<rparr>, full_card] (begin_page (checkpoint (launch None)))))))
     = 1"
proof -
  have ok: "located full_card" "scrolled full_card"
    by (simp_all add: full_card_def)
  have stuck: "located (full_card\<lparr>scrolled := False\<rparr>)"
    "\<not> scrolled (full_card\<lparr>scrolled := False\<rparr>)"
    by (simp_all add: full_card_def)
  have first: "emitted (trace (snd (process_card full_card (begin_page (checkpoint (launch None))))))
      = [job_post (vars (snd (process_card full_card (begin_page (checkpoint (launch None))))))]"
    by (simp add: process_card_returned [OF ok] begin_page_def checkpoint_def launch_def)
  have "process_cards [full_card, full_card\<lparr>scrolled := False\<rparr>, full_card]
      (begin_page (checkpoint (launch None)))
      = (Raised WebDriverException, snd (process_card full_card (begin_page (checkpoint (launch None)))))"
    by (subst process_cards_raised [OF ok]) (simp add: process_card_not_scrolled [OF stuck])
  then have abort: "fst (process_cards [full_card, full_card\<lparr>scrolled := False\<rparr>, full_card]
      (begin_page (checkpoint (launch None)))) = Raised WebDriverException"
    "length (emitted (trace (snd (process_cards
      [full_card, full_card\<lparr>scrolled := False\<rparr>, full_card] (begin_page (checkpoint (launch None)))))))
      = 1"
    by (simp_all add: first)
  have url: "observation Listing_url (full_card\<lparr>company_visible := None\<rparr>)
      = observation Listing_url full_card
    \<and> field_value Listing_url
       (vars (snd (process_card (full_card\<lparr>company_visible := None\<rparr>) (begin_page (checkpoint (launch None))))))
     = ''https://ca.indeed.com/rc/clk?jk=1''
    \<and> field_value Job_url
       (vars (snd (process_card (full_card\<lparr>company_visible := None\<rparr>) (begin_page (checkpoint (launch None))))))
     = ''''
    \<and> field_value Job_url (vars (snd (process_card full_card (begin_page (checkpoint (launch None))))))
     = ''https://ca.indeed.com/rc/clk?jk=1''"
    by (simp add: vars_process_card list_fields_def field_sel full_card_def
        begin_page_def checkpoint_def launch_def blank_def after_wait_def
        wait_until_visible_def default_duration_def)
  show ?thesis
    using url abort by simp
qed

text \<open>
  C2, amended. On every card that is located and scrolled to, each field whose own
  lookup answers gets the value of that lookup, normalised as the source does, whatever
  the lookups of the other fields do and whatever the variables held before. Moreover
  the value of a field \<open>g\<close> does not depend on the lookups of another field \<open>f\<close> at all,
  whether they miss, time out or answer; the job URL is the exception: it is assigned
  with the company name, from the listing URL, and is covered when \<open>f\<close> is neither of the
  two. And no failure of a field's lookups stops the loop over the cards: when every card
  is located and scrolled to, the loop returns and has handed one job post per card to
  the file, however many lookups failed.
\<close>

theorem field_failures_stay_local:
  "(located c \<and> scrolled c \<longrightarrow>
     (title_text c = Some title \<longrightarrow> job_title (vars (snd (process_card c s))) = title)
     \<and> (title_href c = Some href \<longrightarrow> listing_url (vars (snd (process_card c s))) = href)
     \<and> (salary_text c = Some pay \<longrightarrow> salary (vars (snd (process_card c s))) = one_line pay)
     \<and> (location_text c = Some place \<longrightarrow>
          location (vars (snd (process_card c s))) = one_line place)
     \<and> (metadata_text c = Some kind \<longrightarrow>
          job_type (vars (snd (process_card c s)))
            = strip (replace ''Job type'' '''' (replace '':'' '''' (one_line kind))))
     \<and> (after_wait (date_visible c) 3 (date_text c) = Some day \<longrightarrow>
          date_posted (vars (snd (process_card c s))) = replace ''Posted'' '''' (one_line day))
     \<and> (after_wait (company_visible c) default_duration (company_text c) = Some firm \<longrightarrow>
          company_name (vars (snd (process_card c s))) = firm)
     \<and> (after_wait (ratings_visible c) 3 (ratings_text c) = Some rating \<longrightarrow>
          reviews (vars (snd (process_card c s))) = rating))
   \<and> (located c \<and> scrolled c \<and> located c' \<and> scrolled c'
      \<and> (\<forall>h. h \<noteq> f \<longrightarrow> observation h c = observation h c')
      \<and> g \<noteq> f \<and> (g = Job_url \<longrightarrow> f \<noteq> Listing_url \<and> f \<noteq> Company_name) \<longrightarrow>
        field_value g (vars (snd (process_card c s)))
          = field_value g (vars (snd (process_card c' s))))
   \<and> ((\<forall>c \<in> set cs. located c \<and> scrolled c) \<longrightarrow>
        fst (process_cards cs s) = Returned
        \<and> length (emitted (trace (snd (process_cards cs s))))
          = length (emitted (trace s)) + length cs)"
proof -
  have unaffected: "located c \<and> scrolled c \<and> located c' \<and> scrolled c'
      \<and> (\<forall>h. h \<noteq> f \<longrightarrow> observation h c = observation h c')
      \<and> g \<noteq> f \<and> (g = Job_url \<longrightarrow> f \<noteq> Listing_url \<and> f \<noteq> Company_name) \<longrightarrow>
        field_value g (vars (snd (process_card c s)))
          = field_value g (vars (snd (process_card c' s)))"
  proof
    assume a: "located c \<and> scrolled c \<and> located c' \<and> scrolled c'
      \<and> (\<forall>h. h \<noteq> f \<longrightarrow> observation h c = observation h c')
      \<and> g \<noteq> f \<and> (g = Job_url \<longrightarrow> f \<noteq> Listing_url \<and> f \<noteq> Company_name)"
    show "field_value g (vars (snd (process_card c s)))
        = field_value g (vars (snd (process_card c' s)))"
    proof (rule other_fields_unaffected)
      show "located c" "scrolled c" "located c'" "scrolled c'" "g \<noteq> f"
        using a by blast+
      show "\<And>h. h \<noteq> f \<Longrightarrow> observation h c = observation h c'"
        using a by blast
      show "g = Job_url \<Longrightarrow> f \<noteq> Listing_url \<and> f \<noteq> Company_name"
        using a by blast
    qed
  qed
  have loop: "(\<forall>c \<in> set cs. located c \<and> scrolled c) \<longrightarrow>
      fst (process_cards cs s) = Returned
      \<and> length (emitted (trace (snd (process_cards cs s))))
        = length (emitted (trace s)) + length cs"
    by (rule impI) (rule process_cards_all_returned)
  show ?thesis
    by (rule conjI [OF own_lookup_decides conjI [OF unaffected loop]])
qed

theorem field_failures_stay_local_witness:
  "job_title (vars (snd (process_card (full_card\<lparr>company_visible := None\<rparr>)
       (begin_page (checkpoint (launch None)))))) = ''Line Cook''
   \<and> listing_url (vars (snd (process_card (full_card\<lparr>company_visible := None\<rparr>)
       (begin_page (checkpoint (launch None)))))) = ''https://ca.indeed.com/rc/clk?jk=1''
   \<and> salary (vars (snd (process_card (full_card\<lparr>company_visible := None\<rparr>)
       (begin_page (checkpoint (launch None)))))) = ''$18 an hour''
   \<and> location (vars (snd (process_card (full_card\<lparr>company_visible := None\<rparr>)
       (begin_page (checkpoint (launch None)))))) = ''Toronto, ON''
   \<and> job_type (vars (snd (process_card (full_card\<lparr>company_visible := None\<rparr>)
       (begin_page (checkpoint (launch None)))))) = ''Part-time''
   \<and> date_posted (vars (snd (process_card (full_card\<lparr>company_visible := None\<rparr>)
       (begin_page (checkpoint (launch None)))))) = '' 3 days ago''
   \<and> reviews (vars (snd (process_card (full_card\<lparr>company_visible := None\<rparr>)
       (begin_page (checkpoint (launch None)))))) = ''12 reviews''
   \<and> company_name (vars (snd (process_card (bare_card\<lparr>company_visible := Some 4,
       company_text := Some ''Maple Diner''\<rparr>) (begin_page (checkpoint (launch None))))))
     = ''Maple Diner''
   \<and> field_value Salary (vars (snd (process_card (full_card\<lparr>company_visible := None\<rparr>)
       (begin_page (checkpoint (launch None))))))
     = field_value Salary
         (vars (snd (process_card full_card (begin_page (checkpoint (launch None))))))
   \<and> fst (process_cards [full_card, bare_card] (begin_page (checkpoint (launch None))))
     = Returned
   \<and> length (emitted (trace (snd (process_cards [full_card, bare_card]
       (begin_page (checkpoint (launch None))))))) = 2"
proof -
  let ?nameless = "full_card\<lparr>company_visible := None\<rparr>"
  let ?named = "bare_card\<lparr>company_visible := Some 4, company_text := Some ''Maple Diner''\<rparr>"
  let ?s = "begin_page (checkpoint (launch None))"
  have same: "\<forall>h. h \<noteq> Company_name \<longrightarrow> observation h ?nameless = observation h full_card"
  proof (intro allI impI)
    fix h :: field
    assume "h \<noteq> Company_name"
    then show "observation h ?nameless = observation h full_card"
      by (cases h) simp_all
  qed
  have ok: "located full_card \<and> scrolled full_card" "located ?nameless \<and> scrolled ?nameless"
    "located ?named \<and> scrolled ?named"
    "\<forall>c \<in> set [full_card, bare_card]. located c \<and> scrolled c"
    by (simp_all add: full_card_def bare_card_def)
  have texts: "one_line ''$18 an hour'' = ''$18 an hour''"
    "one_line ''Toronto, ON'' = ''Toronto, ON''"
    "strip (replace ''Job type'' '''' (replace '':'' '''' (one_line ''Job type: Part-time'')))
      = ''Part-time''"
    "replace ''Posted'' '''' (one_line ''Posted 3 days ago'') = '' 3 days ago''"
    by code_simp+
  have lookups: "title_text ?nameless = Some ''Line Cook''"
    "title_href ?nameless = Some ''https://ca.indeed.com/rc/clk?jk=1''"
    "salary_text ?nameless = Some ''$18 an hour''"
    "location_text ?nameless = Some ''Toronto, ON''"
    "metadata_text ?nameless = Some ''Job type: Part-time''"
    "after_wait (date_visible ?nameless) 3 (date_text ?nameless) = Some ''Posted 3 days ago''"
    "after_wait (ratings_visible ?nameless) 3 (ratings_text ?nameless) = Some ''12 reviews''"
    "after_wait (company_visible ?named) default_duration (company_text ?named)
      = Some ''Maple Diner''"
    by (simp_all add: full_card_def bare_card_def after_wait_def wait_until_visible_def
        default_duration_def)
  note no_company = field_failures_stay_local
    [of ?nameless "''Line Cook''" ?s "''https://ca.indeed.com/rc/clk?jk=1''"
      "''$18 an hour''" "''Toronto, ON''" "''Job type: Part-time''" "''Posted 3 days ago''"
      "''Maple Diner''" "''12 reviews''" full_card Company_name Salary
      "[full_card, bare_card]"]
  note only_company = field_failures_stay_local
    [of ?named "''Line Cook''" ?s "''https://ca.indeed.com/rc/clk?jk=1''"
      "''$18 an hour''" "''Toronto, ON''" "''Job type: Part-time''" "''Posted 3 days ago''"
      "''Maple Diner''" "''12 reviews''" full_card Company_name Salary "[]"]
  have title: "job_title (vars (snd (process_card ?nameless ?s))) = ''Line Cook''"
    using no_company ok(2) lookups(1) by blast
  have url: "listing_url (vars (snd (process_card ?nameless ?s)))
      = ''https://ca.indeed.com/rc/clk?jk=1''"
    using no_company ok(2) lookups(2) by blast
  have "salary (vars (snd (process_card ?nameless ?s))) = one_line ''$18 an hour''"
    using no_company ok(2) lookups(3) by blast
  then have pay: "salary (vars (snd (process_card ?nameless ?s))) = ''$18 an hour''"
    by (simp only: texts)
  have "location (vars (snd (process_card ?nameless ?s))) = one_line ''Toronto, ON''"
    using no_company ok(2) lookups(4) by blast
  then have place: "location (vars (snd (process_card ?nameless ?s))) = ''Toronto, ON''"
    by (simp only: texts)
  have "job_type (vars (snd (process_card ?nameless ?s)))
      = strip (replace ''Job type'' '''' (replace '':'' '''' (one_line ''Job type: Part-time'')))"
    using no_company ok(2) lookups(5) by blast
  then have kind: "job_type (vars (snd (process_card ?nameless ?s))) = ''Part-time''"
    by (simp only: texts)
  have "date_posted (vars (snd (process_card ?nameless ?s)))
      = replace ''Posted'' '''' (one_line ''Posted 3 days ago'')"
    using no_company ok(2) lookups(6) by blast
  then have day: "date_posted (vars (snd (process_card ?nameless ?s))) = '' 3 days ago''"
    by (simp only: texts)
  have rating: "reviews (vars (snd (process_card ?nameless ?s))) = ''12 reviews''"
    using no_company ok(2) lookups(7) by blast
  have firm: "company_name (vars (snd (process_card ?named ?s))) = ''Maple Diner''"
    using only_company ok(3) lookups(8) by blast
  have "Salary \<noteq> Company_name" "Salary \<noteq> Job_url"
    by simp_all
  then have other: "field_value Salary (vars (snd (process_card ?nameless ?s)))
      = field_value Salary (vars (snd (process_card full_card ?s)))"
    using no_company ok(1,2) same by blast
  have loop: "fst (process_cards [full_card, bare_card] ?s) = Returned
      \<and> length (emitted (trace (snd (process_cards [full_card, bare_card] ?s))))
        = length (emitted (trace ?s)) + length [full_card, bare_card]"
    using no_company ok(4) by blast
  have "emitted (trace ?s) = []"
    by (simp add: begin_page_def checkpoint_def launch_def)
  then have two: "length (emitted (trace (snd (process_cards [full_card, bare_card] ?s)))) = 2"
    using loop by simp
  show ?thesis
    using title url pay place kind day rating firm other loop two by (intro conjI) simp_all
qed

section \<open>The job posts of a page: theorems\<close>

lemma sample_texts:
  "one_line ''$18 an hour'' = ''$18 an hour''"
  "one_line ''Toronto, ON'' = ''Toronto, ON''"
  "strip (replace ''Job type'' '''' (replace '':'' '''' (one_line ''Job type: Part-time'')))
     = ''Part-time''"
  "replace ''Posted'' '''' (one_line ''Posted 3 days ago'') = '' 3 days ago''"
  by code_simp+

lemma sample_waits:
  "t \<le> d \<Longrightarrow> after_wait (Some t) d r = r"
  "after_wait None d r = None"
  by (simp_all add: after_wait_def wait_until_visible_def)

lemma full_card_post:
  "job_post (get_reviews full_card (list_fields full_card v)) =
    [(''Job Title'', ''Line Cook''), (''Salary'', ''$18 an hour''),
     (''Job Type'', ''Part-time''), (''Location'', ''Toronto, ON''),
     (''Company Name'', ''Maple Diner''), (''Date Posted'', '' 3 days ago''),
     (''Reviews'', ''12 reviews''), (''Job URL'', ''https://ca.indeed.com/rc/clk?jk=1''),
     (''Listing URL'', ''https://ca.indeed.com/rc/clk?jk=1'')]"
  by (simp add: job_post_def list_fields_def field_sel full_card_def sample_texts
      sample_waits)

lemma bare_card_post:
  "job_post (get_reviews bare_card (list_fields bare_card v)) =
    [(''Job Title'', job_title v), (''Salary'', salary v), (''Job Type'', ''Full-Time''),
     (''Location'', location v), (''Company Name'', company_name v),
     (''Date Posted'', ''Today''), (''Reviews'', ''Reviews Not Found''),
     (''Job URL'', job_url v), (''Listing URL'', listing_url v)]"
  by (simp add: job_post_def list_fields_def field_sel bare_card_def sample_waits)

lemma full_card_vars:
  "job_title (get_reviews full_card (list_fields full_card v)) = ''Line Cook''"
  "salary (get_reviews full_card (list_fields full_card v)) = ''$18 an hour''"
  "location (get_reviews full_card (list_fields full_card v)) = ''Toronto, ON''"
  "company_name (get_reviews full_card (list_fields full_card v)) = ''Maple Diner''"
  "job_url (get_reviews full_card (list_fields full_card v))
     = ''https://ca.indeed.com/rc/clk?jk=1''"
  "listing_url (get_reviews full_card (list_fields full_card v))
     = ''https://ca.indeed.com/rc/clk?jk=1''"
  by (simp_all add: list_fields_def field_sel full_card_def sample_texts sample_waits)

lemma sample_cards_ok:
  "located full_card" "scrolled full_card" "located bare_card" "scrolled bare_card"
  "default_content_returns full_card" "default_content_returns bare_card"
  by (simp_all add: full_card_def bare_card_def)

lemma scrape_two_cards:
  "scrape_page two_cards s =
    (Returned,
     s\<lparr>job_count := job_count s + 10, pages_scraped := pages_scraped s + 1,
       jobs_scraped := jobs_scraped s + 15,
       vars := get_reviews bare_card (list_fields bare_card
         (get_reviews full_card (list_fields full_card blank))),
       current_context := Default_content,
       file_city := to_csv (job_post (get_reviews bare_card (list_fields bare_card
           (get_reviews full_card (list_fields full_card blank)))))
         (to_csv (job_post (get_reviews full_card (list_fields full_card blank)))
           (file_city s)),
       trace := trace s @ [Get (job_count s), Enter_attempt, Exit_call,
         To_csv (job_post (get_reviews full_card (list_fields full_card blank))),
         Enter_attempt, Exit_call,
         To_csv (job_post (get_reviews bare_card (list_fields bare_card
           (get_reviews full_card (list_fields full_card blank)))))]\<rparr>)"
  by (simp add: scrape_page_def two_cards_def wait_until_visible_def begin_page_def
      process_card_returned sample_cards_ok)

text \<open>
  C1 fails on the code. On a page whose first card answers every lookup and whose second
  card answers none, the second job post carries the title, salary, location, company
  name and URLs of the first card, not the empty string: the ten strings are blanked once
  per page (line 236), and the \<^verbatim>\<open>except\<close> branches of these fields are \<^verbatim>\<open>pass\<close>. The
  job type, the date and the reviews, whose \<^verbatim>\<open>except\<close> branches assign, get their
  defaults.
\<close>

theorem later_card_keeps_earlier_values:
  "map (map snd) (emitted (trace (snd (scrape_page two_cards (checkpoint (launch None)))))) =
    [[''Line Cook'', ''$18 an hour'', ''Part-time'', ''Toronto, ON'', ''Maple Diner'',
      '' 3 days ago'', ''12 reviews'', ''https://ca.indeed.com/rc/clk?jk=1'',
      ''https://ca.indeed.com/rc/clk?jk=1''],
     [''Line Cook'', ''$18 an hour'', ''Full-Time'', ''Toronto, ON'', ''Maple Diner'',
      ''Today'', ''Reviews Not Found'', ''https://ca.indeed.com/rc/clk?jk=1'',
      ''https://ca.indeed.com/rc/clk?jk=1'']]"
  by (simp add: scrape_two_cards launch_def checkpoint_def full_card_post bare_card_post
      full_card_vars)

text \<open>
  What does hold of the defaults. On every card that is located and scrolled to, a failed
  lookup of the job type, the date or the reviews gives the default of that field,
  whatever came before; a failed lookup of another field leaves the variable as it was,
  which is the empty string as long as no earlier card of the page has set it.
\<close>

lemma assigned_defaults:
  assumes "located c" and "scrolled c"
  shows "metadata_text c = None \<Longrightarrow> job_type (vars (snd (process_card c s))) = ''Full-Time''"
    and "after_wait (date_visible c) 3 (date_text c) = None \<Longrightarrow>
      date_posted (vars (snd (process_card c s))) = ''Today''"
    and "after_wait (ratings_visible c) 3 (ratings_text c) = None \<Longrightarrow>
      reviews (vars (snd (process_card c s))) = ''Reviews Not Found''"
  using assms by (simp_all add: process_card_returned list_fields_def field_sel)

lemma kept_on_failure:
  assumes "located c" and "scrolled c"
  shows "title_text c = None \<Longrightarrow> job_title (vars (snd (process_card c s))) = job_title (vars s)"
    and "title_href c = None \<Longrightarrow>
      listing_url (vars (snd (process_card c s))) = listing_url (vars s)"
    and "salary_text c = None \<Longrightarrow> salary (vars (snd (process_card c s))) = salary (vars s)"
    and "location_text c = None \<Longrightarrow>
      location (vars (snd (process_card c s))) = location (vars s)"
    and "after_wait (company_visible c) default_duration (company_text c) = None \<Longrightarrow>
      company_name (vars (snd (process_card c s))) = company_name (vars s)
      \<and> job_url (vars (snd (process_card c s))) = job_url (vars s)"
  using assms by (simp_all add: process_card_returned list_fields_def field_sel)

lemma failed_lookups_on_blank_vars:
  "job_post (get_reviews bare_card (list_fields bare_card blank)) =
    [(''Job Title'', ''''), (''Salary'', ''''), (''Job Type'', ''Full-Time''),
     (''Location'', ''''), (''Company Name'', ''''), (''Date Posted'', ''Today''),
     (''Reviews'', ''Reviews Not Found''), (''Job URL'', ''''), (''Listing URL'', '''')]"
  by (simp add: bare_card_post blank_def)

text \<open>
  C8, as the spec states it, fails where the company name is not found: on the first
  card of a page, a card whose title link is read and whose company element is missing
  is written with an empty job URL beside its listing URL.
\<close>

theorem job_url_not_listing_url_counterexample:
  "emitted (trace (snd (process_card (full_card\<lparr>company_text := None\<rparr>)
       (begin_page (checkpoint (launch None))))))
     = [job_post (vars (snd (process_card (full_card\<lparr>company_text := None\<rparr>)
         (begin_page (checkpoint (launch None))))))]
   \<and> map_of (job_post (vars (snd (process_card (full_card\<lparr>company_text := None\<rparr>)
         (begin_page (checkpoint (launch None))))))) ''Job URL'' = Some ''''
   \<and> map_of (job_post (vars (snd (process_card (full_card\<lparr>company_text := None\<rparr>)
         (begin_page (checkpoint (launch None))))))) ''Listing URL''
     = Some ''https://ca.indeed.com/rc/clk?jk=1''"
  by (simp add: process_card_returned full_card_def begin_page_def checkpoint_def
      launch_def job_post_def list_fields_def field_sel blank_def sample_waits)

text \<open>
  C8, amended. On every card whose company name is found, the job post that is written
  has the listing URL as its job URL.
\<close>

theorem job_url_aliases_listing_url:
  assumes "located c" and "scrolled c"
    and "after_wait (company_visible c) default_duration (company_text c) = Some name"
  shows "job_url (vars (snd (process_card c s))) = listing_url (vars (snd (process_card c s)))
    \<and> emitted (trace (snd (process_card c s)))
      = emitted (trace s) @ [job_post (vars (snd (process_card c s)))]
    \<and> map_of (job_post (vars (snd (process_card c s)))) ''Job URL''
      = map_of (job_post (vars (snd (process_card c s)))) ''Listing URL''"
  using assms
  by (simp add: process_card_returned job_post_def list_fields_def field_sel)

theorem job_url_aliases_listing_url_witness:
  "job_url (vars (snd (process_card full_card (begin_page (checkpoint (launch None))))))
     = listing_url (vars (snd (process_card full_card (begin_page (checkpoint (launch None))))))
   \<and> emitted (trace (snd (process_card full_card (begin_page (checkpoint (launch None))))))
     = [job_post (vars (snd (process_card full_card (begin_page (checkpoint (launch None))))))]
   \<and> map_of (job_post (vars (snd (process_card full_card
         (begin_page (checkpoint (launch None))))))) ''Job URL''
     = Some ''https://ca.indeed.com/rc/clk?jk=1''"
proof -
  have found: "after_wait (company_visible full_card) default_duration (company_text full_card)
      = Some ''Maple Diner''"
    by (simp add: full_card_def sample_waits)
  have start: "emitted (trace (begin_page (checkpoint (launch None)))) = []"
    by (simp add: begin_page_def checkpoint_def launch_def)
  have url: "map_of (job_post (vars (snd (process_card full_card
      (begin_page (checkpoint (launch None))))))) ''Listing URL''
      = Some ''https://ca.indeed.com/rc/clk?jk=1''"
    by (simp add: process_card_returned sample_cards_ok full_card_post)
  show ?thesis
    using job_url_aliases_listing_url [OF sample_cards_ok(1,2) found,
        of "begin_page (checkpoint (launch None))"]
    by (simp add: start url)
qed

section \<open>The file of a city: theorems\<close>

lemma stored_snoc: "stored file (posts @ [post]) = to_csv post (stored file posts)"
  by (simp add: stored_def)

lemma stored_fresh:
  "posts \<noteq> [] \<Longrightarrow>
    stored None posts = Some (map fst (hd posts) # map (map snd) posts)"
proof (induction posts rule: rev_induct)
  case Nil
  then show ?case by simp
next
  case (snoc post posts)
  show ?case
  proof (cases "posts = []")
    case True
    then show ?thesis
      by (simp add: stored_def to_csv_def)
  next
    case False
    then show ?thesis
      using snoc.IH by (simp add: stored_snoc to_csv_def)
  qed
qed

lemma stored_job_posts:
  assumes "vs \<noteq> []"
  shows "stored None (map job_post vs) = Some (columns # map (map snd \<circ> job_post) vs)"
proof -
  have "hd (map job_post vs) = job_post (hd vs)"
    using assms by (simp add: hd_map)
  then show ?thesis
    using assms stored_fresh [of "map job_post vs"] by (simp add: columns_job_post)
qed

lemma written_start: "written file (launch file)" "written file (checkpoint (launch file))"
  by (simp_all add: written_def launch_def checkpoint_def stored_def)

lemma written_begin_page: "written file s \<Longrightarrow> written file (begin_page s)"
  by (simp add: written_def begin_page_def)

lemma written_process_card: "written file s \<Longrightarrow> written file (snd (process_card c s))"
proof (cases "located c \<and> scrolled c")
  case True
  assume "written file s"
  then show ?thesis
    using True by (simp add: written_def process_card_returned stored_snoc columns_job_post)
next
  case False
  assume "written file s"
  then show ?thesis
    using False by (cases "located c") (simp_all add: process_card_not_located
        process_card_not_scrolled)
qed

lemma written_get_job_posts: "written file (snd (get_job_posts w file))"
  by (rule get_job_posts_invariant [where Q = "\<lambda>c. True"])
    (simp_all add: written_start written_begin_page written_process_card)

lemma stored_with_columns:
  assumes "posts \<noteq> []" and "list_all (\<lambda>post. map fst post = columns) posts"
  shows "stored None posts = Some (columns # map (map snd) posts)"
proof -
  have "map fst (hd posts) = columns"
    using assms by (cases posts) simp_all
  then show ?thesis
    using stored_fresh [OF assms(1)] by simp
qed

text \<open>
  C4. A job post appended to a file that does not exist creates it with the header row
  and the record; appended to a file that exists, it adds the record row and nothing
  else. Hence \<open>N \<ge> 1\<close> job posts appended to a fresh file leave \<open>N + 1\<close> rows, the header
  followed by the records in their order; and at the end of every run of
  \<^verbatim>\<open>get_job_posts\<close> on a fresh file that has emitted a job post, the file is the header
  followed by the emitted job posts in the order of extraction. (With no job post
  appended, the file is not created.)
\<close>

theorem record_sink_rows:
  "to_csv post None = Some [map fst post, map snd post]
   \<and> to_csv post (Some rows) = Some (rows @ [map snd post])
   \<and> (vs \<noteq> [] \<longrightarrow>
        stored None (map job_post vs) = Some (columns # map (map snd \<circ> job_post) vs)
        \<and> map_option length (stored None (map job_post vs)) = Some (length vs + 1))
   \<and> (emitted (trace (snd (get_job_posts w None))) \<noteq> [] \<longrightarrow>
        file_city (snd (get_job_posts w None))
          = Some (columns # map (map snd) (emitted (trace (snd (get_job_posts w None)))))
        \<and> map_option length (file_city (snd (get_job_posts w None)))
          = Some (length (emitted (trace (snd (get_job_posts w None)))) + 1))"
proof (intro conjI impI)
  show "to_csv post None = Some [map fst post, map snd post]"
    by (simp add: to_csv_def)
  show "to_csv post (Some rows) = Some (rows @ [map snd post])"
    by (simp add: to_csv_def)
next
  assume "vs \<noteq> []"
  then show "stored None (map job_post vs) = Some (columns # map (map snd \<circ> job_post) vs)"
    by (rule stored_job_posts)
  then show "map_option length (stored None (map job_post vs)) = Some (length vs + 1)"
    by simp
next
  assume some: "emitted (trace (snd (get_job_posts w None))) \<noteq> []"
  have "written None (snd (get_job_posts w None))"
    by (rule written_get_job_posts)
  then show content: "file_city (snd (get_job_posts w None))
      = Some (columns # map (map snd) (emitted (trace (snd (get_job_posts w None)))))"
    using stored_with_columns [OF some] by (simp add: written_def)
  show "map_option length (file_city (snd (get_job_posts w None)))
      = Some (length (emitted (trace (snd (get_job_posts w None)))) + 1)"
    by (simp add: content)
qed

lemma pages_1523: "pages_of_text ''1,523 jobs'' = Inr 152"
  by code_simp

lemma small_site_run:
  "get_job_posts small_site file = scrape_page two_cards (checkpoint (launch file))"
proof -
  have "read_count (job_count_pane (first_page small_site)) 10 = Inr 152"
    by (simp add: small_site_def read_count_def wait_until_visible_def pages_1523)
  then have pages: "count_pages (first_page small_site) = 152"
    by (simp add: count_pages_def)
  have shown: "wait_until_visible (results_list (first_page small_site)) 30 = Inr ()"
    by (simp add: small_site_def wait_until_visible_def)
  have range: "range_py (pages_scraped (checkpoint (launch file))) 152 = [151]"
    by (simp add: range_py_def checkpoint_def)
  have "page_at small_site (job_count (checkpoint (launch file))) = two_cards"
    by (simp add: small_site_def)
  then show ?thesis
    by (simp add: get_job_posts_def Let_def shown pages range scrape_two_cards)
qed

lemma small_site_emitted:
  "emitted (trace (snd (get_job_posts small_site None))) =
    [job_post (get_reviews full_card (list_fields full_card blank)),
     job_post (get_reviews bare_card (list_fields bare_card
       (get_reviews full_card (list_fields full_card blank))))]"
  by (simp add: small_site_run scrape_two_cards launch_def checkpoint_def)

theorem record_sink_rows_witness:
  "map_option length (stored None (map job_post [blank, blank])) = Some 3
   \<and> map_option hd (file_city (snd (get_job_posts small_site None))) = Some columns
   \<and> map_option length (file_city (snd (get_job_posts small_site None))) = Some 3"
  using record_sink_rows [of "[]" "[]" "[blank, blank]" small_site]
  by (simp add: small_site_emitted)

section \<open>The detail context: theorems\<close>

lemma calls_paired_process_card:
  "count_list (trace (snd (process_card c s))) Exit_call
     - count_list (trace s) Exit_call
   = count_list (trace (snd (process_card c s))) Enter_attempt
     - count_list (trace s) Enter_attempt
   \<and> count_list (trace s) Exit_call \<le> count_list (trace (snd (process_card c s))) Exit_call
   \<and> count_list (trace s) Enter_attempt
     \<le> count_list (trace (snd (process_card c s))) Enter_attempt"
proof (cases "located c \<and> scrolled c")
  case True
  then show ?thesis
    by (simp add: process_card_returned)
next
  case False
  then show ?thesis
    by (cases "located c") (simp_all add: process_card_not_located process_card_not_scrolled)
qed

lemma calls_paired_get_job_posts:
  "count_list (trace (snd (get_job_posts w file))) Exit_call
    = count_list (trace (snd (get_job_posts w file))) Enter_attempt"
proof (rule get_job_posts_invariant
    [where Q = "\<lambda>c. True"
       and P = "\<lambda>s :: session.
         count_list (trace s) Exit_call = count_list (trace s) Enter_attempt"])
  fix c and s :: session
  assume "count_list (trace s) Exit_call = count_list (trace s) Enter_attempt"
  then show "count_list (trace (snd (process_card c s))) Exit_call
      = count_list (trace (snd (process_card c s))) Enter_attempt"
    using calls_paired_process_card [of c s] by linarith
qed (simp_all add: begin_page_def launch_def checkpoint_def)

lemma default_content_process_card:
  assumes "default_content_returns c" and "current_context s = Default_content"
  shows "current_context (snd (process_card c s)) = Default_content"
proof (cases "located c \<and> scrolled c")
  case True
  then show ?thesis
    using assms by (simp add: process_card_returned)
next
  case False
  then show ?thesis
    using assms
    by (cases "located c") (simp_all add: process_card_not_located process_card_not_scrolled)
qed

lemma default_content_process_cards:
  assumes "\<forall>c \<in> set cs. default_content_returns c" and "current_context s = Default_content"
  shows "current_context (snd (process_cards cs s)) = Default_content"
  using default_content_process_card assms
  by (rule process_cards_invariant
      [where Q = default_content_returns
        and P = "\<lambda>s :: session. current_context s = Default_content"])

lemma default_content_get_job_posts:
  assumes "\<And>start. \<forall>c \<in> set (cards (page_at w start)). default_content_returns c"
  shows "current_context (snd (get_job_posts w file)) = Default_content"
proof (rule get_job_posts_invariant
    [where Q = default_content_returns
        and P = "\<lambda>s :: session. current_context s = Default_content"])
  show "\<And>c s. default_content_returns c \<Longrightarrow> current_context s = Default_content \<Longrightarrow>
      current_context (snd (process_card c s)) = Default_content"
    by (rule default_content_process_card)
  show "\<And>start. \<forall>c \<in> set (cards (page_at w start)). default_content_returns c"
    by (rule assms)
qed (simp_all add: begin_page_def launch_def checkpoint_def)

text \<open>
  C5, as the spec states it, fails where the exit call itself raises: the code swallows
  the failure (lines 314-320) and goes on. A card whose frame was entered and whose
  \<^verbatim>\<open>switch_to.default_content()\<close> raises leaves the browser in the frame after the
  card, although the run started in the default content.
\<close>

theorem failed_exit_stays_in_frame_counterexample:
  "current_context (begin_page (checkpoint (launch None))) = Default_content
   \<and> fst (process_cards [full_card\<lparr>default_content_returns := False\<rparr>]
       (begin_page (checkpoint (launch None)))) = Returned
   \<and> current_context (snd (process_cards [full_card\<lparr>default_content_returns := False\<rparr>]
       (begin_page (checkpoint (launch None))))) = Iframe"
  by (simp add: process_card_returned full_card_def begin_page_def checkpoint_def launch_def
      sample_waits)

text \<open>
  C5, amended. Over every run, returned or raised, the exit calls are as many as the entry
  attempts; a card that is located and scrolled to makes one entry attempt and then one
  exit call before its job post is written, whether the entry succeeded or not. The
  browser is in the default content when the first card of the first page is reached,
  and it is in the default content before and after every card of a page, and at the
  end of the run, as long as the exit calls themselves return.
\<close>

theorem detail_context_paired:
  "count_list (trace (snd (get_job_posts w file))) Exit_call
     = count_list (trace (snd (get_job_posts w file))) Enter_attempt
   \<and> (located c \<and> scrolled c \<longrightarrow>
        trace (snd (process_card c s))
          = trace s @ [Enter_attempt, Exit_call,
              To_csv (job_post (vars (snd (process_card c s))))])
   \<and> current_context (begin_page (checkpoint (launch file))) = Default_content
   \<and> (current_context s = Default_content \<and> (\<forall>c \<in> set cs. default_content_returns c) \<longrightarrow>
        (\<forall>k \<le> length cs.
           current_context (snd (process_cards (take k cs) s)) = Default_content))
   \<and> ((\<forall>start. \<forall>c \<in> set (cards (page_at w start)). default_content_returns c) \<longrightarrow>
        current_context (snd (get_job_posts w file)) = Default_content)"
proof (intro conjI impI allI)
  show "count_list (trace (snd (get_job_posts w file))) Exit_call
      = count_list (trace (snd (get_job_posts w file))) Enter_attempt"
    by (rule calls_paired_get_job_posts)
  show "current_context (begin_page (checkpoint (launch file))) = Default_content"
    by (simp add: launch_def checkpoint_def begin_page_def)
next
  assume "located c \<and> scrolled c"
  then show "trace (snd (process_card c s))
      = trace s @ [Enter_attempt, Exit_call, To_csv (job_post (vars (snd (process_card c s))))]"
    by (simp add: process_card_returned)
next
  fix k
  assume a: "current_context s = Default_content \<and> (\<forall>c \<in> set cs. default_content_returns c)"
  then have "\<forall>c \<in> set (take k cs). default_content_returns c"
    by (meson in_set_takeD)
  then show "current_context (snd (process_cards (take k cs) s)) = Default_content"
    using a by (simp add: default_content_process_cards)
next
  assume "\<forall>start. \<forall>c \<in> set (cards (page_at w start)). default_content_returns c"
  then show "current_context (snd (get_job_posts w file)) = Default_content"
    by (simp add: default_content_get_job_posts)
qed

theorem detail_context_paired_witness:
  "count_list (trace (snd (get_job_posts small_site None))) Exit_call = 2
   \<and> count_list (trace (snd (get_job_posts small_site None))) Enter_attempt = 2
   \<and> trace (snd (process_card bare_card (launch None)))
     = [Get 0, Enter_attempt, Exit_call,
        To_csv (job_post (vars (snd (process_card bare_card (launch None)))))]
   \<and> current_context (snd (process_cards (take 2 [full_card, bare_card]) (launch None)))
     = Default_content
   \<and> current_context (snd (get_job_posts small_site None)) = Default_content"
proof -
  have exits: "count_list (trace (snd (get_job_posts small_site None))) Exit_call = 2"
    by (simp add: small_site_run scrape_two_cards launch_def checkpoint_def)
  have returns: "\<forall>start. \<forall>c \<in> set (cards (page_at small_site start)).
      default_content_returns c"
    by (simp add: small_site_def two_cards_def sample_cards_ok)
  have two: "\<forall>c \<in> set [full_card, bare_card]. default_content_returns c"
    by (simp add: sample_cards_ok)
  have start: "current_context (launch None) = Default_content" "trace (launch None) = [Get 0]"
    by (simp_all add: launch_def)
  note paired = detail_context_paired [of small_site None bare_card "launch None"
      "[full_card, bare_card]"]
  have enters: "count_list (trace (snd (get_job_posts small_site None))) Enter_attempt = 2"
    using paired exits by simp
  have one: "trace (snd (process_card bare_card (launch None)))
      = [Get 0, Enter_attempt, Exit_call,
         To_csv (job_post (vars (snd (process_card bare_card (launch None)))))]"
    using paired sample_cards_ok start by simp
  have "\<forall>k \<le> length [full_card, bare_card].
      current_context (snd (process_cards (take k [full_card, bare_card]) (launch None)))
        = Default_content"
    using paired start two by blast
  then have "2 \<le> length [full_card, bare_card] \<longrightarrow>
      current_context (snd (process_cards (take 2 [full_card, bare_card]) (launch None)))
        = Default_content"
    by (rule spec)
  then have page: "current_context (snd (process_cards (take 2 [full_card, bare_card])
      (launch None))) = Default_content"
    by simp
  have run: "current_context (snd (get_job_posts small_site None)) = Default_content"
    using paired returns by blast
  show ?thesis
    using exits enters one page run by (intro conjI)
qed

section \<open>The pages of one city: theorems\<close>

lemma range_py_empty: "b \<le> a \<Longrightarrow> range_py a b = []"
  by (simp add: range_py_def)

lemma range_py_step: "a < b \<Longrightarrow> range_py a b = a # range_py (a + 1) b"
  by (simp add: range_py_def upto_rec1)

lemma length_range_py: "length (range_py a b) = nat (b - a)"
  by (simp add: range_py_def)

lemma page_loop_is_spec_page_loop:
  "page_loop w (range_py (pages_scraped s) pages_total) s = spec_page_loop w pages_total s"
proof (induction w pages_total s rule: spec_page_loop.induct)
  case (1 w pages_total s)
  show ?case
  proof (cases "pages_total \<le> pages_scraped s")
    case True
    then show ?thesis
      by (simp add: range_py_empty spec_page_loop.simps [of w pages_total s])
  next
    case False
    obtain r s' where page: "scrape_page (page_at w (job_count s)) s = (r, s')"
      by (cases "scrape_page (page_at w (job_count s)) s")
    have next_page: "pages_scraped s' = pages_scraped s + 1"
      using scrape_page_counters [of "page_at w (job_count s)" s] page by simp
    have unfold: "range_py (pages_scraped s) pages_total
        = pages_scraped s # range_py (pages_scraped s') pages_total"
      using False by (simp add: range_py_step next_page)
    show ?thesis
    proof (cases r)
      case Returned
      have "page_loop w (range_py (pages_scraped s') pages_total) s'
          = spec_page_loop w pages_total s'"
        using False page Returned by (intro "1.IH") simp_all
      then show ?thesis
        using False page Returned
        by (simp add: unfold spec_page_loop.simps [of w pages_total s])
    next
      case (Raised e)
      then show ?thesis
        using False page by (simp add: unfold spec_page_loop.simps [of w pages_total s])
    qed
  qed
qed

lemma page_loop_returned:
  "fst (page_loop w pages s) = Returned \<Longrightarrow>
    pages_scraped (snd (page_loop w pages s)) = pages_scraped s + int (length pages)"
proof (induction pages arbitrary: s)
  case Nil
  show ?case by simp
next
  case (Cons page pages)
  obtain r s' where page: "scrape_page (page_at w (job_count s)) s = (r, s')"
    by (cases "scrape_page (page_at w (job_count s)) s")
  have next_page: "pages_scraped s' = pages_scraped s + 1"
    using scrape_page_counters [of "page_at w (job_count s)" s] page by simp
  show ?case
  proof (cases r)
    case Returned
    then show ?thesis
      using Cons.prems Cons.IH [of s'] page next_page by simp
  next
    case (Raised e)
    then show ?thesis
      using Cons.prems page by simp
  qed
qed

lemma get_job_posts_visible:
  assumes "wait_until_visible (results_list (first_page w)) 30 = Inr u"
  shows "get_job_posts w file
    = page_loop w (range_py 151 (count_pages (first_page w))) (checkpoint (launch file))"
  using assms by (simp add: get_job_posts_def Let_def checkpoint_def)

lemma get_job_posts_not_visible:
  assumes "wait_until_visible (results_list (first_page w)) 30 = Inl e"
  shows "get_job_posts w file = (Raised e, launch file)"
  using assms by (simp add: get_job_posts_def)

lemma lockstep_process_card:
  "job_count s = 10 * pages_scraped s \<Longrightarrow>
    job_count (snd (process_card c s)) = 10 * pages_scraped (snd (process_card c s))"
  by (simp add: process_card_keeps_counters)

lemma lockstep_get_job_posts:
  "job_count (snd (get_job_posts w file)) = 10 * pages_scraped (snd (get_job_posts w file))"
  by (rule get_job_posts_invariant
      [where Q = "\<lambda>c. True" and P = "\<lambda>s :: session. job_count s = 10 * pages_scraped s"])
    (simp_all add: lockstep_process_card begin_page_def launch_def checkpoint_def)

lemma get_job_posts_returned:
  assumes "fst (get_job_posts w file) = Returned"
  shows "pages_scraped (snd (get_job_posts w file)) = max 151 (count_pages (first_page w))"
proof (cases "wait_until_visible (results_list (first_page w)) 30")
  case (Inl e)
  then show ?thesis
    using assms by (simp add: get_job_posts_not_visible)
next
  case (Inr u)
  have "pages_scraped (snd (get_job_posts w file))
      = pages_scraped (checkpoint (launch file))
        + int (length (range_py 151 (count_pages (first_page w))))"
    using assms unfolding get_job_posts_visible [OF Inr] by (rule page_loop_returned)
  then show ?thesis
    by (simp add: length_range_py checkpoint_def)
qed

text \<open>
  C3. Every page, whether its cards are read or its results never show, advances the
  offset by 10 and the page counter by 1. The loop of the source, which walks the range
  built from the checkpoint, is the loop that goes on while
  \<open>pages_scraped < pages_total\<close> and stops when \<open>pages_scraped \<ge> pages_total\<close> (a page whose
  results never show ends both with the same error). At the end of every run the offset
  is ten times the page counter, and a run that returns has
  \<open>pages_scraped = max 151 pages_total \<ge> pages_total\<close>.
\<close>

theorem pagination_lockstep:
  "job_count (snd (scrape_page p s)) = job_count s + 10
   \<and> pages_scraped (snd (scrape_page p s)) = pages_scraped s + 1
   \<and> page_loop w (range_py (pages_scraped s) pages_total) s = spec_page_loop w pages_total s
   \<and> (wait_until_visible (results_list (first_page w)) 30 = Inr () \<longrightarrow>
        get_job_posts w file
          = spec_page_loop w (count_pages (first_page w)) (checkpoint (launch file)))
   \<and> job_count (snd (get_job_posts w file)) = 10 * pages_scraped (snd (get_job_posts w file))
   \<and> (fst (get_job_posts w file) = Returned \<longrightarrow>
        pages_scraped (snd (get_job_posts w file)) = max 151 (count_pages (first_page w))
        \<and> count_pages (first_page w) \<le> pages_scraped (snd (get_job_posts w file)))"
proof (intro conjI impI)
  show "job_count (snd (scrape_page p s)) = job_count s + 10"
    "pages_scraped (snd (scrape_page p s)) = pages_scraped s + 1"
    by (simp_all add: scrape_page_counters)
  show "page_loop w (range_py (pages_scraped s) pages_total) s = spec_page_loop w pages_total s"
    by (rule page_loop_is_spec_page_loop)
  show "job_count (snd (get_job_posts w file)) = 10 * pages_scraped (snd (get_job_posts w file))"
    by (rule lockstep_get_job_posts)
next
  assume shown: "wait_until_visible (results_list (first_page w)) 30 = Inr ()"
  have "pages_scraped (checkpoint (launch file)) = 151"
    by (simp add: checkpoint_def)
  then show "get_job_posts w file
      = spec_page_loop w (count_pages (first_page w)) (checkpoint (launch file))"
    using page_loop_is_spec_page_loop [of w "checkpoint (launch file)"
        "count_pages (first_page w)"]
    by (simp add: get_job_posts_visible [OF shown])
next
  assume "fst (get_job_posts w file) = Returned"
  then show top: "pages_scraped (snd (get_job_posts w file))
      = max 151 (count_pages (first_page w))"
    by (rule get_job_posts_returned)
  show "count_pages (first_page w) \<le> pages_scraped (snd (get_job_posts w file))"
    by (simp add: top)
qed

theorem pagination_lockstep_witness:
  "fst (get_job_posts small_site None) = Returned
   \<and> get_job_posts small_site None = spec_page_loop small_site 152 (checkpoint (launch None))
   \<and> pages_scraped (snd (get_job_posts small_site None)) = 152
   \<and> job_count (snd (get_job_posts small_site None)) = 1520"
proof -
  have shown: "wait_until_visible (results_list (first_page small_site)) 30 = Inr ()"
    by (simp add: small_site_def wait_until_visible_def)
  have "read_count (job_count_pane (first_page small_site)) 10 = Inr 152"
    by (simp add: small_site_def read_count_def wait_until_visible_def pages_1523)
  then have pages: "count_pages (first_page small_site) = 152"
    by (simp add: count_pages_def)
  have returned: "fst (get_job_posts small_site None) = Returned"
    by (simp add: small_site_run scrape_two_cards)
  note lockstep = pagination_lockstep [of two_cards "launch None" small_site 152 None]
  have loop: "get_job_posts small_site None
      = spec_page_loop small_site 152 (checkpoint (launch None))"
    using lockstep shown unfolding pages by blast
  have "pages_scraped (snd (get_job_posts small_site None)) = max 151 152"
    using lockstep returned unfolding pages by blast
  then have counter: "pages_scraped (snd (get_job_posts small_site None)) = 152"
    by simp
  have "job_count (snd (get_job_posts small_site None))
      = 10 * pages_scraped (snd (get_job_posts small_site None))"
    using lockstep by blast
  then have offset: "job_count (snd (get_job_posts small_site None)) = 1520"
    by (simp only: counter)
  show ?thesis
    using returned loop counter offset by (intro conjI)
qed

text \<open>
  C10. The loop walks \<^verbatim>\<open>range(151, number_of_pages)\<close>. When the number of pages is at most
  151, the range is empty: the run requests \<^verbatim>\<open>start=0\<close> and nothing else, reads no card
  and leaves the file of the city as it found it. This is so whenever both count
  indicators fail, since the number of pages is then 25.
\<close>

theorem checkpoint_skips_short_queries:
  "(count_pages (first_page w) \<le> 151 \<longrightarrow>
      range_py 151 (count_pages (first_page w)) = []
      \<and> trace (snd (get_job_posts w file)) = [Get 0]
      \<and> emitted (trace (snd (get_job_posts w file))) = []
      \<and> file_city (snd (get_job_posts w file)) = file)
   \<and> (read_count (job_count_pane (first_page w)) 10 = Inl e
      \<and> read_count (search_count_pages (first_page w)) 5 = Inl e' \<longrightarrow>
        count_pages (first_page w) = 25
        \<and> trace (snd (get_job_posts w file)) = [Get 0]
        \<and> file_city (snd (get_job_posts w file)) = file)"
proof -
  have short: "trace (snd (get_job_posts w file)) = [Get 0]
      \<and> file_city (snd (get_job_posts w file)) = file"
    if "count_pages (first_page w) \<le> 151"
  proof (cases "wait_until_visible (results_list (first_page w)) 30")
    case (Inl e)
    then show ?thesis
      by (simp add: get_job_posts_not_visible launch_def)
  next
    case (Inr u)
    then show ?thesis
      using that
      by (simp add: get_job_posts_visible range_py_empty checkpoint_def launch_def)
  qed
  have fallback: "count_pages (first_page w) = 25"
    if "read_count (job_count_pane (first_page w)) 10 = Inl e"
      and "read_count (search_count_pages (first_page w)) 5 = Inl e'"
    using that by (simp add: count_pages_def)
  show ?thesis
    using short fallback by (auto simp: range_py_empty)
qed

theorem checkpoint_skips_short_queries_witness:
  "count_pages (first_page unread_site) = 25
   \<and> range_py 151 25 = []
   \<and> trace (snd (get_job_posts unread_site None)) = [Get 0]
   \<and> emitted (trace (snd (get_job_posts unread_site None))) = []
   \<and> file_city (snd (get_job_posts unread_site None)) = None"
proof -
  have pane: "read_count (job_count_pane (first_page unread_site)) 10 = Inl TimeoutException"
    by (simp add: unread_site_def no_count_def read_count_def wait_until_visible_def)
  have legacy: "read_count (search_count_pages (first_page unread_site)) 5
      = Inl TimeoutException"
    by (simp add: unread_site_def no_count_def read_count_absent)
  note skipped = checkpoint_skips_short_queries [of unread_site None TimeoutException
      TimeoutException]
  have pages: "count_pages (first_page unread_site) = 25"
    using skipped pane legacy by blast
  then have "count_pages (first_page unread_site) \<le> 151"
    by simp
  then have "range_py 151 (count_pages (first_page unread_site)) = []
      \<and> trace (snd (get_job_posts unread_site None)) = [Get 0]
      \<and> emitted (trace (snd (get_job_posts unread_site None))) = []
      \<and> file_city (snd (get_job_posts unread_site None)) = None"
    using skipped by blast
  then show ?thesis
    by (simp add: pages)
qed

end
